theory Spec2Isabelle
  imports Main "HOL-Library.Word" "HOL-Library.Sublist"
begin

section \<open>The k8saudit event source (source.go)\<close>

text \<open>
  A shallow embedding of \<^verbatim>\<open>plugins/k8saudit/pkg/k8saudit/source.go\<close>: the two raw
  message producers (\<^verbatim>\<open>OpenFilePath\<close>, \<^verbatim>\<open>OpenWebServer\<close>), the parsing goroutine of
  \<^verbatim>\<open>openEventSource\<close>, the JSON shape dispatch (\<^verbatim>\<open>parseJSONMessage\<close>,
  \<^verbatim>\<open>parseJSONAuditEvent\<close>), the batch pull \<^verbatim>\<open>NextBatch\<close> and \<^verbatim>\<open>Close\<close>.

  Goroutines communicate over channels; a \<^verbatim>\<open>select\<close> takes whichever case is ready.
  Each goroutine is modelled as a function of the sequence of cases its \<^verbatim>\<open>select\<close>
  statements take, in the order they are taken; that sequence is the environment's
  choice and is an argument of the model.

  Library functions the file calls but does not define are arguments of the model
  (\<^verbatim>\<open>fastjson.ParseBytes\<close>, \<^verbatim>\<open>time.Parse\<close>, \<^verbatim>\<open>Value.MarshalTo\<close>), or are modelled
  from their documented behaviour where a branch of source.go depends on it
  (\<^verbatim>\<open>Value.Get\<close>, \<^verbatim>\<open>GetArray\<close>, \<^verbatim>\<open>GetStringBytes\<close>, \<^verbatim>\<open>http.Error\<close>,
  \<^verbatim>\<open>http.MaxBytesReader\<close>, the event writer of the SDK).
\<close>

subsection \<open>Errors\<close>

text \<open>
  A Go \<^verbatim>\<open>error\<close> value is \<open>error option\<close>: \<open>None\<close> is \<^verbatim>\<open>nil\<close>. \<open>ErrEOF\<close> and
  \<open>ErrTimeout\<close> are the SDK's \<^verbatim>\<open>sdk.ErrEOF\<close> and \<^verbatim>\<open>sdk.ErrTimeout\<close>; every other
  error is identified with its message.
\<close>

datatype error = ErrEOF | ErrTimeout | Err string

fun Error :: "error \<Rightarrow> string" where
  "Error ErrEOF = ''eof''"
| "Error ErrTimeout = ''timeout''"
| "Error (Err msg) = msg"

subsection \<open>JSON values (fastjson.Value)\<close>

datatype json =
    JNull
  | JTrue
  | JFalse
  | JNumber string
  | JString string
  | JArray "json list"
  | JObject "(string \<times> json) list"

text \<open>\<^verbatim>\<open>Object.Get\<close>: the value of the first entry with the key, or nil.\<close>

fun Object_Get :: "(string \<times> json) list \<Rightarrow> string \<Rightarrow> json option" where
  "Object_Get [] key = None"
| "Object_Get ((k, v) # kvs) key = (if k = key then Some v else Object_Get kvs key)"

text \<open>
  \<^verbatim>\<open>strconv.Atoi\<close>, which \<^verbatim>\<open>Value.Get\<close> applies to the key when the value is an
  array: an optional sign followed by at least one decimal digit, within 64 bits.
\<close>

definition digit_of :: "char \<Rightarrow> nat option" where
  "digit_of c =
     (if of_char c \<ge> (48::nat) \<and> of_char c \<le> (57::nat) then Some (of_char c - 48) else None)"

fun digits_val :: "string \<Rightarrow> nat \<Rightarrow> nat option" where
  "digits_val [] acc = Some acc"
| "digits_val (c # cs) acc =
     (case digit_of c of None \<Rightarrow> None | Some d \<Rightarrow> digits_val cs (10 * acc + d))"

definition Atoi :: "string \<Rightarrow> int option" where
  "Atoi s =
     (let (neg, ds) =
            (case s of
               [] \<Rightarrow> (False, s)
             | c # r \<Rightarrow> if c = CHR ''-'' then (True, r)
                        else if c = CHR ''+'' then (False, r) else (False, s))
      in if ds = [] then None
         else (case digits_val ds 0 of
                 None \<Rightarrow> None
               | Some n \<Rightarrow>
                   let v = (if neg then - int n else int n)
                   in if v < - (2 ^ 63) \<or> 2 ^ 63 \<le> v then None else Some v))"

text \<open>
  \<^verbatim>\<open>Value.Get(key)\<close> with one key: the member of an object, the element of an array
  when the key is a decimal index in range, nil for every other value.
\<close>

fun Get :: "json \<Rightarrow> string \<Rightarrow> json option" where
  "Get (JObject kvs) key = Object_Get kvs key"
| "Get (JArray a) key =
     (case Atoi key of
        None \<Rightarrow> None
      | Some n \<Rightarrow> if n < 0 \<or> int (length a) \<le> n then None else Some (a ! nat n))"
| "Get v key = None"

text \<open>
  \<^verbatim>\<open>Value.GetStringBytes()\<close>: the bytes of a string value, nil for every other type.
\<close>

fun GetStringBytes :: "json \<Rightarrow> string option" where
  "GetStringBytes (JString s) = Some s"
| "GetStringBytes v = None"

text \<open>
  \<^verbatim>\<open>Value.GetArray()\<close> on a possibly nil receiver: the element slice of an array, nil
  for nil and for every other type. \<open>None\<close> is the nil slice. The parser of
  \<^verbatim>\<open>fastjson.ParseBytes\<close> is a fresh one, and for the text \<^verbatim>\<open>[]\<close> it leaves the
  element slice of the new value as it was allocated, which is nil: the slice of an
  empty array is nil.
\<close>

fun GetArray :: "json option \<Rightarrow> json list option" where
  "GetArray (Some (JArray a)) = (if a = [] then None else Some a)"
| "GetArray v = None"

subsection \<open>Audit events\<close>

text \<open>
  A \<^verbatim>\<open>time.Time\<close> is identified with its reading \<^verbatim>\<open>UnixNano()\<close>, the nanoseconds
  since the Unix epoch.
\<close>

type_synonym Time = int

record auditEvent =
  Data :: json
  Timestamp :: Time

text \<open>
  \<^verbatim>\<open>parseJSONAuditEvent\<close>. \<open>time_Parse\<close> stands for
  \<^verbatim>\<open>time.Parse(time.RFC3339Nano, _)\<close>. A \<^verbatim>\<open>stageTimestamp\<close> that is not a string has
  nil bytes, which \<^verbatim>\<open>string(_)\<close> turns into the empty string.
\<close>

definition parseJSONAuditEvent :: "(string \<Rightarrow> error + Time) \<Rightarrow> json \<Rightarrow> error + auditEvent" where
  "parseJSONAuditEvent time_Parse value =
     (case Get value ''stageTimestamp'' of
        None \<Rightarrow> Inl (Err ''can't read stageTimestamp'')
      | Some stageTimestamp \<Rightarrow>
          (case time_Parse (case GetStringBytes stageTimestamp of None \<Rightarrow> [] | Some b \<Rightarrow> b) of
             Inl err \<Rightarrow> Inl err
           | Inr timestamp \<Rightarrow> Inr \<lparr>Data = value, Timestamp = timestamp\<rparr>))"

definition not_recognized :: error where
  "not_recognized = Err ''data not recognized as a k8s audit event''"

text \<open>
  The loop over the items of an \<^verbatim>\<open>EventList\<close>: the first error returns
  \<^verbatim>\<open>(nil, err)\<close>.
\<close>

fun parseItems ::
  "(string \<Rightarrow> error + Time) \<Rightarrow> json list \<Rightarrow> auditEvent list \<Rightarrow> auditEvent list \<times> error option"
where
  "parseItems time_Parse [] res = (res, None)"
| "parseItems time_Parse (item # items) res =
     (case parseJSONAuditEvent time_Parse item of
        Inl err \<Rightarrow> ([], Some err)
      | Inr event \<Rightarrow> parseItems time_Parse items (res @ [event]))"

text \<open>
  The branch of \<^verbatim>\<open>parseJSONMessage\<close> for a value that is not an array: the switch
  on the \<^verbatim>\<open>kind\<close> string. An \<^verbatim>\<open>EventList\<close> whose \<^verbatim>\<open>items\<close> slice is nil falls out of
  the switch to the final error.
\<close>

definition parseKind ::
  "(string \<Rightarrow> error + Time) \<Rightarrow> json \<Rightarrow> auditEvent list \<times> error option"
where
  "parseKind time_Parse value =
     (case Get value ''kind'' of
        None \<Rightarrow> ([], Some not_recognized)
      | Some kind \<Rightarrow>
          (case GetStringBytes kind of
             None \<Rightarrow> ([], Some not_recognized)
           | Some k \<Rightarrow>
               if k = ''EventList'' then
                 (case GetArray (Get value ''items'') of
                    None \<Rightarrow> ([], Some not_recognized)
                  | Some items \<Rightarrow> parseItems time_Parse items [])
               else if k = ''Event'' then
                 (case parseJSONAuditEvent time_Parse value of
                    Inl err \<Rightarrow> ([], Some err)
                  | Inr event \<Rightarrow> ([event], None))
               else ([], Some not_recognized)))"

text \<open>
  \<^verbatim>\<open>parseJSONMessage\<close> on a non-nil value, with the loop of its array branch
  (\<open>parseElems\<close>, the accumulator is \<^verbatim>\<open>res\<close>). The function returns a slice and an
  error; in the array branch both can be set, \<^verbatim>\<open>return res, err\<close>. A nil and an empty
  slice are both \<open>[]\<close>.
\<close>

fun parseValue ::
  "(string \<Rightarrow> error + Time) \<Rightarrow> json \<Rightarrow> auditEvent list \<times> error option"
and parseElems ::
  "(string \<Rightarrow> error + Time) \<Rightarrow> json list \<Rightarrow> auditEvent list \<Rightarrow> auditEvent list \<times> error option"
where
  "parseValue time_Parse (JArray a) = parseElems time_Parse a []"
| "parseValue time_Parse JNull = parseKind time_Parse JNull"
| "parseValue time_Parse JTrue = parseKind time_Parse JTrue"
| "parseValue time_Parse JFalse = parseKind time_Parse JFalse"
| "parseValue time_Parse (JNumber n) = parseKind time_Parse (JNumber n)"
| "parseValue time_Parse (JString s) = parseKind time_Parse (JString s)"
| "parseValue time_Parse (JObject kvs) = parseKind time_Parse (JObject kvs)"
| "parseElems time_Parse [] res = (res, None)"
| "parseElems time_Parse (v # vs) res =
     (case parseValue time_Parse v of
        (values, Some err) \<Rightarrow> (res, Some err)
      | (values, None) \<Rightarrow> parseElems time_Parse vs (res @ values))"

text \<open>\<^verbatim>\<open>parseJSONMessage\<close>: the nil check, then the dispatch.\<close>

definition parseJSONMessage ::
  "(string \<Rightarrow> error + Time) \<Rightarrow> json option \<Rightarrow> auditEvent list \<times> error option"
where
  "parseJSONMessage time_Parse value =
     (case value of
        None \<Rightarrow> ([], Some (Err ''can't parse nil JSON message''))
      | Some v \<Rightarrow> parseValue time_Parse v)"

subsection \<open>The parsing goroutine of openEventSource\<close>

text \<open>
  One iteration of the goroutine's loop on a received raw message: the records it
  sends on \<^verbatim>\<open>newEventChan\<close> and the lines it logs. A message that fails to parse, or
  for which \<^verbatim>\<open>parseJSONMessage\<close> returns an error, is logged and skipped
  (\<^verbatim>\<open>continue\<close>): the slice returned beside the error is not sent.
\<close>

definition handle_message ::
  "(string \<Rightarrow> error + json) \<Rightarrow> (string \<Rightarrow> error + Time) \<Rightarrow> string
     \<Rightarrow> auditEvent list \<times> string list"
where
  "handle_message ParseBytes time_Parse bytes =
     (case ParseBytes bytes of
        Inl err \<Rightarrow> ([], [Error err])
      | Inr jsonValue \<Rightarrow>
          (case parseJSONMessage time_Parse (Some jsonValue) of
             (values, Some err) \<Rightarrow> ([], [Error err])
           | (values, None) \<Rightarrow> (values, [])))"

text \<open>The cases of the goroutine's \<^verbatim>\<open>select\<close>, and what it sends.\<close>

datatype merge_case =
    MsgRecv string
  | MsgChanClosed
  | MergeCtxDone
  | ErrRecv "error option"
  | ErrChanClosed

datatype merge_out = SendEvent auditEvent | SendError "error option"

record merge_result =
  outs :: "merge_out list"
  mlog :: "string list"
  returned :: bool

text \<open>
  The goroutine, as a function of the cases its \<^verbatim>\<open>select\<close> takes. \<open>returned\<close> tells
  whether it has returned, which closes \<^verbatim>\<open>newErrorChan\<close> and \<^verbatim>\<open>newEventChan\<close>; when
  the cases run out it is still waiting.
\<close>

fun merge_goroutine ::
  "(string \<Rightarrow> error + json) \<Rightarrow> (string \<Rightarrow> error + Time) \<Rightarrow> merge_case list \<Rightarrow> merge_result"
where
  "merge_goroutine ParseBytes time_Parse [] = \<lparr>outs = [], mlog = [], returned = False\<rparr>"
| "merge_goroutine ParseBytes time_Parse (MsgRecv bytes # cs) =
     (let (values, lg) = handle_message ParseBytes time_Parse bytes;
          r = merge_goroutine ParseBytes time_Parse cs
      in r\<lparr>outs := map SendEvent values @ outs r, mlog := lg @ mlog r\<rparr>)"
| "merge_goroutine ParseBytes time_Parse (MsgChanClosed # cs) =
     \<lparr>outs = [], mlog = [], returned = True\<rparr>"
| "merge_goroutine ParseBytes time_Parse (MergeCtxDone # cs) =
     \<lparr>outs = [], mlog = [], returned = True\<rparr>"
| "merge_goroutine ParseBytes time_Parse (ErrRecv err # cs) =
     (let r = merge_goroutine ParseBytes time_Parse cs
      in r\<lparr>outs := SendError err # outs r\<rparr>)"
| "merge_goroutine ParseBytes time_Parse (ErrChanClosed # cs) =
     \<lparr>outs = [], mlog = [], returned = True\<rparr>"

subsection \<open>The event source\<close>

text \<open>
  \<^verbatim>\<open>eventSource\<close>. \<open>cancel\<close> is the \<^verbatim>\<open>onClose\<close> callback, nil for a file source; the
  only callback the file ever stores is the closure of \<^verbatim>\<open>OpenWebServer\<close>. The
  context and the HTTP server are shared objects: \<open>ctx_done\<close> tells whether
  \<^verbatim>\<open>ctx.Done()\<close> is closed, \<open>server\<close> is the state of the server the closure holds.
\<close>

datatype closure = OnClose

datatype server_state = NoServer | Serving | ShutDown

record eventSource =
  eof :: bool
  ctx_done :: bool
  cancel :: "closure option"
  server :: server_state

text \<open>
  A slot of the batch (\<^verbatim>\<open>sdk.EventWriter\<close>): a buffer of \<open>slot_cap\<close> bytes, the bytes
  written and the timestamp. \<^verbatim>\<open>Writer().Write(data)\<close> copies the bytes that fit and
  reports a short write when \<^verbatim>\<open>data\<close> is longer than the buffer.
\<close>

record slot =
  slot_cap :: nat
  slot_data :: string
  slot_ts :: "64 word"

definition Write :: "slot \<Rightarrow> string \<Rightarrow> slot \<times> error option" where
  "Write s data =
     (s\<lparr>slot_data := take (slot_cap s) data\<rparr>,
      if slot_cap s < length data then Some (Err ''short write'') else None)"

text \<open>\<^verbatim>\<open>SetTimestamp(uint64(ev.Timestamp.UnixNano()))\<close>.\<close>

definition SetTimestamp :: "slot \<Rightarrow> Time \<Rightarrow> slot" where
  "SetTimestamp s t = s\<lparr>slot_ts := word_of_int t\<rparr>"

text \<open>
  \<^verbatim>\<open>openEventSource\<close>: \<open>writers\<close> is the result of
  \<^verbatim>\<open>sdk.NewEventWriters(DefaultBatchSize, MaxEventSize)\<close>. A fresh context is not
  done.
\<close>

definition openEventSource ::
  "server_state \<Rightarrow> error + slot list \<Rightarrow> closure option \<Rightarrow> error + eventSource \<times> slot list"
where
  "openEventSource srv writers onClose =
     (case writers of
        Inl err \<Rightarrow> Inl err
      | Inr evts \<Rightarrow>
          Inr (\<lparr>eof = False, ctx_done = False, cancel = onClose, server = srv\<rparr>, evts))"

subsection \<open>The file producer (OpenFilePath)\<close>

text \<open>
  What the scanner finds in an opened file: the lines \<^verbatim>\<open>scanner.Scan()\<close> yields before
  it stops, and \<^verbatim>\<open>scanner.Err()\<close> afterwards (nil when it stopped at the end of the
  file).
\<close>

record scanned_file =
  scanned :: "string list"
  scanner_Err :: "error option"

datatype producer_action =
    SendMsg string
  | SendErr "error option"
  | CloseErrorChan
  | CloseEventChan

text \<open>
  The producer goroutine. \<open>err\<close> is the variable \<^verbatim>\<open>err\<close> of \<^verbatim>\<open>OpenFilePath\<close> that
  the closure captures, assigned by \<^verbatim>\<open>os.Open\<close>: line 98 sends that variable. The
  deferred calls close \<^verbatim>\<open>errorChan\<close>, then \<^verbatim>\<open>eventChan\<close>.
\<close>

definition file_goroutine :: "error option \<Rightarrow> scanned_file \<Rightarrow> producer_action list" where
  "file_goroutine err f =
     map SendMsg (filter (\<lambda>line. length line > 0) (scanned f))
     @ (if scanner_Err f \<noteq> None then [SendErr err] else [])
     @ [CloseErrorChan, CloseEventChan]"

text \<open>
  \<^verbatim>\<open>OpenFilePath\<close>: \<open>os_Open\<close> stands for \<^verbatim>\<open>os.Open\<close>. The result is the source, its
  batch and what the producer goroutine does.
\<close>

definition OpenFilePath ::
  "(string \<Rightarrow> error + scanned_file) \<Rightarrow> error + slot list \<Rightarrow> string
     \<Rightarrow> error + (eventSource \<times> slot list) \<times> producer_action list"
where
  "OpenFilePath os_Open writers filePath =
     (let (opened, err) = (case os_Open filePath of
                           Inl e \<Rightarrow> (None, Some e)
                         | Inr f \<Rightarrow> (Some f, None))
      in case err of
           Some e \<Rightarrow> Inl e
         | None \<Rightarrow>
             (case openEventSource NoServer writers None of
                Inl e \<Rightarrow> Inl e
              | Inr src \<Rightarrow>
                  Inr (src, case opened of None \<Rightarrow> [] | Some f \<Rightarrow> file_goroutine err f)))"

text \<open>
  The parsing goroutine receives what the producer sends, and \<^verbatim>\<open>NextBatch\<close> receives
  what the parsing goroutine sends: each send on an unbuffered channel is one receive
  on the other side, each close is seen as a closed channel.
\<close>

fun merge_case_of :: "producer_action \<Rightarrow> merge_case" where
  "merge_case_of (SendMsg bytes) = MsgRecv bytes"
| "merge_case_of (SendErr err) = ErrRecv err"
| "merge_case_of CloseErrorChan = ErrChanClosed"
| "merge_case_of CloseEventChan = MsgChanClosed"

subsection \<open>The webhook producer (OpenWebServer)\<close>

text \<open>
  Modelled from the spec: the type of \<^verbatim>\<open>Plugin.Config\<close> is declared outside
  source.go. Of the configuration the spec lists, the file reads the maximum
  serialized size of a record (\<^verbatim>\<open>MaxEventSize\<close>) and the maximum size of a webhook body
  (\<^verbatim>\<open>WebhookMaxBatchSize\<close>); both are taken as natural numbers.
\<close>

record config =
  MaxEventSize :: nat
  WebhookMaxBatchSize :: nat

record request =
  Method :: string
  Header :: "string \<Rightarrow> string list"
  Body :: string
  Body_Err :: "error option"

text \<open>\<^verbatim>\<open>Header.Get\<close>: the first value of the key, or the empty string.\<close>

definition Header_Get :: "(string \<Rightarrow> string list) \<Rightarrow> string \<Rightarrow> string" where
  "Header_Get h key = (case h key of [] \<Rightarrow> [] | v # vs \<Rightarrow> v)"

text \<open>\<^verbatim>\<open>strings.Contains\<close>.\<close>

definition strings_Contains :: "string \<Rightarrow> string \<Rightarrow> bool" where
  "strings_Contains s substr = sublist substr s"

text \<open>
  \<^verbatim>\<open>ioutil.ReadAll\<close> of \<^verbatim>\<open>http.MaxBytesReader(w, req.Body, n)\<close>. The body stream
  delivers \<open>Body\<close> and then ends, with \<open>Body_Err\<close> when that is set. A stream with more
  than \<^verbatim>\<open>n\<close> bytes fails as too large; a shorter one fails with its own error, if any.
\<close>

definition ReadAll_MaxBytes :: "nat \<Rightarrow> request \<Rightarrow> error + string" where
  "ReadAll_MaxBytes n req =
     (if n < length (Body req) then Inl (Err ''http: request body too large'')
      else (case Body_Err req of Some err \<Rightarrow> Inl err | None \<Rightarrow> Inr (Body req)))"

record response =
  StatusCode :: nat
  resp_body :: string

text \<open>\<^verbatim>\<open>http.Error\<close> writes the status and the message followed by a newline.\<close>

definition http_Error :: "string \<Rightarrow> nat \<Rightarrow> response" where
  "http_Error msg code = \<lparr>StatusCode = code, resp_body = msg @ [CHR 0x0A]\<rparr>"

definition StatusMethodNotAllowed :: nat where "StatusMethodNotAllowed = 405"
definition StatusBadRequest :: nat where "StatusBadRequest = 400"
definition StatusOK :: nat where "StatusOK = 200"

record handled =
  resp :: response
  enqueued :: "string list"
  hlog :: "string list"

text \<open>The handler function registered on the endpoint.\<close>

definition handler :: "config \<Rightarrow> request \<Rightarrow> handled" where
  "handler cfg req =
     (if Method req \<noteq> ''POST'' then
        \<lparr>resp = http_Error (Method req @ '' method not allowed'') StatusMethodNotAllowed,
         enqueued = [], hlog = []\<rparr>
      else if \<not> strings_Contains (Header_Get (Header req) ''Content-Type'') ''application/json'' then
        \<lparr>resp = http_Error ''wrong Content Type'' StatusBadRequest, enqueued = [], hlog = []\<rparr>
      else
        (case ReadAll_MaxBytes (WebhookMaxBatchSize cfg) req of
           Inl err \<Rightarrow>
             (let msg = ''bad request: '' @ Error err
              in \<lparr>resp = http_Error msg StatusBadRequest, enqueued = [], hlog = [msg]\<rparr>)
         | Inr bytes \<Rightarrow>
             \<lparr>resp = \<lparr>StatusCode = StatusOK, resp_body = []\<rparr>, enqueued = [bytes], hlog = []\<rparr>))"

text \<open>
  The server goroutine: \<open>err\<close> is what \<^verbatim>\<open>ListenAndServe\<close> returned. It sends its own
  \<^verbatim>\<open>err\<close> unless that is nil or \<^verbatim>\<open>http.ErrServerClosed\<close>, then closes
  \<^verbatim>\<open>errorChan\<close>.
\<close>

definition ErrServerClosed :: error where
  "ErrServerClosed = Err ''http: Server closed''"

definition server_goroutine :: "error option \<Rightarrow> producer_action list" where
  "server_goroutine err =
     (if err \<noteq> None \<and> err \<noteq> Some ErrServerClosed then [SendErr err] else [])
     @ [CloseErrorChan]"

definition OpenWebServer :: "error + slot list \<Rightarrow> error + eventSource \<times> slot list" where
  "OpenWebServer writers = openEventSource Serving writers (Some OnClose)"

subsection \<open>Close\<close>

text \<open>Durations are nanoseconds, as \<^verbatim>\<open>time.Duration\<close>.\<close>

definition Millisecond :: nat where "Millisecond = 1000000"
definition Second :: nat where "Second = 1000 * Millisecond"
definition webServerShutdownTimeoutSecs :: nat where "webServerShutdownTimeoutSecs = 5"
definition defaultEventTimeout :: nat where "defaultEventTimeout = 30 * Millisecond"

text \<open>
  What a call does to the shared objects: \<open>ServerShutdown d\<close> is \<^verbatim>\<open>s.Shutdown\<close> with a
  context that is done after \<open>d\<close>, \<open>CancelCtx\<close> is \<^verbatim>\<open>cancelCtx()\<close>.
\<close>

datatype effect = ServerShutdown nat | CancelCtx

text \<open>
  The closure \<^verbatim>\<open>onClose\<close> of \<^verbatim>\<open>OpenWebServer\<close>. The context given to
  \<^verbatim>\<open>Shutdown\<close> is derived from \<^verbatim>\<open>ctx\<close> with a timeout; when \<^verbatim>\<open>ctx\<close> is already
  cancelled it is done at once.
\<close>

definition onClose :: "eventSource \<Rightarrow> eventSource \<times> effect list" where
  "onClose e =
     (e\<lparr>ctx_done := True, server := ShutDown\<rparr>,
      [ServerShutdown (if ctx_done e then 0 else webServerShutdownTimeoutSecs * Second),
       CancelCtx])"

definition Close :: "eventSource \<Rightarrow> eventSource \<times> effect list" where
  "Close e = (case cancel e of None \<Rightarrow> (e, []) | Some OnClose \<Rightarrow> onClose e)"

subsection \<open>NextBatch\<close>

text \<open>
  The channel cases of the \<^verbatim>\<open>select\<close> in \<^verbatim>\<open>NextBatch\<close>. A received error can be nil.
\<close>

datatype chan_event =
    RecvEvent auditEvent
  | EventChanClosed
  | CtxDone
  | RecvError "error option"
  | ErrorChanClosed

datatype log_line = DroppedEvent nat

record pull_result =
  count :: nat
  status :: "error option"
  src :: eventSource
  batch :: "slot list"
  logged :: "log_line list"

text \<open>
  The loop of \<^verbatim>\<open>NextBatch\<close>. \<open>timeout\<close> is the timer made once before the loop by
  \<^verbatim>\<open>time.After\<close>, as the time after the start of the call at which it fires. The
  environment is the list of channel cases in the order the \<^verbatim>\<open>select\<close> takes them,
  each with the time after the start of the call at which it becomes ready: a case that
  is ready before the timer fires is taken, otherwise the timer case is; when nothing
  more becomes ready the timer fires. \<^verbatim>\<open>ctx.Done()\<close> is ready only when the context is
  cancelled; such an entry is passed over otherwise.
\<close>

fun fill ::
  "(json \<Rightarrow> string) \<Rightarrow> config \<Rightarrow> nat \<Rightarrow> eventSource \<Rightarrow> slot list \<Rightarrow> nat \<Rightarrow> log_line list
     \<Rightarrow> (nat \<times> chan_event) list \<Rightarrow> pull_result"
where
  "fill MarshalTo cfg timeout e evts i lg [] =
     (if i < length evts
      then \<lparr>count = i, status = Some ErrTimeout, src = e, batch = evts, logged = lg\<rparr>
      else \<lparr>count = i, status = None, src = e, batch = evts, logged = lg\<rparr>)"
| "fill MarshalTo cfg timeout e evts i lg ((t, c) # rest) =
     (if \<not> i < length evts
      then \<lparr>count = i, status = None, src = e, batch = evts, logged = lg\<rparr>
      else if timeout \<le> t
      then \<lparr>count = i, status = Some ErrTimeout, src = e, batch = evts, logged = lg\<rparr>
      else
        (case c of
           RecvEvent ev \<Rightarrow>
             (let data = MarshalTo (Data ev)
              in if length data > MaxEventSize cfg
                 then fill MarshalTo cfg timeout e evts i (lg @ [DroppedEvent (length data)]) rest
                 else
                   (case Write (evts ! i) data of
                      (s, Some err) \<Rightarrow>
                        \<lparr>count = i, status = Some err, src = e, batch = evts[i := s],
                         logged = lg\<rparr>
                    | (s, None) \<Rightarrow>
                        fill MarshalTo cfg timeout e
                          (evts[i := SetTimestamp s (Timestamp ev)]) (i + 1) lg rest))
         | EventChanClosed \<Rightarrow>
             \<lparr>count = i, status = Some ErrEOF, src = e\<lparr>eof := True\<rparr>, batch = evts, logged = lg\<rparr>
         | CtxDone \<Rightarrow>
             if ctx_done e
             then \<lparr>count = i, status = Some ErrEOF, src = e\<lparr>eof := True\<rparr>, batch = evts,
                   logged = lg\<rparr>
             else fill MarshalTo cfg timeout e evts i lg rest
         | RecvError err \<Rightarrow>
             \<lparr>count = i, status = err, src = e\<lparr>eof := True\<rparr>, batch = evts, logged = lg\<rparr>
         | ErrorChanClosed \<Rightarrow>
             \<lparr>count = i, status = Some ErrEOF, src = e\<lparr>eof := True\<rparr>, batch = evts,
              logged = lg\<rparr>))"

definition NextBatch ::
  "(json \<Rightarrow> string) \<Rightarrow> config \<Rightarrow> eventSource \<Rightarrow> slot list \<Rightarrow> (nat \<times> chan_event) list
     \<Rightarrow> pull_result"
where
  "NextBatch MarshalTo cfg e evts arrivals =
     (if eof e
      then \<lparr>count = 0, status = Some ErrEOF, src = e, batch = evts, logged = []\<rparr>
      else fill MarshalTo cfg defaultEventTimeout e evts 0 [] arrivals)"

text \<open>
  Successive calls of \<^verbatim>\<open>NextBatch\<close> on one source, each with its own environment; the
  framework hands the same batch to every call.
\<close>

fun pulls ::
  "(json \<Rightarrow> string) \<Rightarrow> config \<Rightarrow> eventSource \<Rightarrow> slot list \<Rightarrow> (nat \<times> chan_event) list list
     \<Rightarrow> pull_result list"
where
  "pulls MarshalTo cfg e evts [] = []"
| "pulls MarshalTo cfg e evts (a # as) =
     (let r = NextBatch MarshalTo cfg e evts a
      in r # pulls MarshalTo cfg (src r) (batch r) as)"

text \<open>What \<^verbatim>\<open>NextBatch\<close> receives from the parsing goroutine.\<close>

fun chan_event_of :: "merge_out \<Rightarrow> chan_event" where
  "chan_event_of (SendEvent ev) = RecvEvent ev"
| "chan_event_of (SendError err) = RecvError err"

subsection \<open>Concrete inputs\<close>

text \<open>
  Inputs on which the theorems below are exercised: two instants of
  \<^verbatim>\<open>time.Parse(time.RFC3339Nano, _)\<close>, two audit events, and some JSON texts with the
  values \<^verbatim>\<open>fastjson.ParseBytes\<close> gives them. Every other string is rejected by these
  two fragments.
\<close>

definition sample_time_Parse :: "string \<Rightarrow> error + Time" where
  "sample_time_Parse s =
     (if s = ''2023-01-01T00:00:00.000000000Z'' then Inr 1672531200000000000
      else if s = ''2023-01-01T00:00:01.5Z'' then Inr 1672531201500000000
      else Inl (Err ''parsing time: cannot parse''))"

definition event_A :: json where
  "event_A = JObject [(''kind'', JString ''Event''),
                      (''stageTimestamp'', JString ''2023-01-01T00:00:00.000000000Z'')]"

definition event_B :: json where
  "event_B = JObject [(''kind'', JString ''Event''),
                      (''stageTimestamp'', JString ''2023-01-01T00:00:01.5Z''),
                      (''verb'', JString ''delete'')]"

definition record_A :: auditEvent where
  "record_A = \<lparr>Data = event_A, Timestamp = 1672531200000000000\<rparr>"

definition record_B :: auditEvent where
  "record_B = \<lparr>Data = event_B, Timestamp = 1672531201500000000\<rparr>"

definition text_A :: string where
  \<open>text_A = ''{"kind":"Event","stageTimestamp":"2023-01-01T00:00:00.000000000Z"}''\<close>

definition text_list :: string where
  \<open>text_list = ''{"kind":"EventList","items":[{"kind":"Event","stageTimestamp":"2023-01-01T00:00:00.000000000Z"},{"kind":"Event","stageTimestamp":"2023-01-01T00:00:01.5Z","verb":"delete"}]}''\<close>

definition text_mixed :: string where
  \<open>text_mixed = ''[{"kind":"Event","stageTimestamp":"2023-01-01T00:00:00.000000000Z"},{},{"kind":"Event","stageTimestamp":"2023-01-01T00:00:01.5Z","verb":"delete"}]''\<close>

definition text_pair :: string where
  \<open>text_pair = ''[{"kind":"Event","stageTimestamp":"2023-01-01T00:00:00.000000000Z"},{"kind":"Event","stageTimestamp":"2023-01-01T00:00:01.5Z","verb":"delete"}]''\<close>

definition text_pod :: string where
  \<open>text_pod = ''[{"kind":"Event","stageTimestamp":"2023-01-01T00:00:00.000000000Z"},{"kind":"Pod"},{"kind":"Event","stageTimestamp":"2023-01-01T00:00:01.5Z","verb":"delete"}]''\<close>

definition text_late :: string where
  \<open>text_late = ''[{"kind":"Event","stageTimestamp":"2023-01-01T00:00:00.000000000Z"},{"kind":"Event","stageTimestamp":"yesterday"},{"kind":"Event","stageTimestamp":"2023-01-01T00:00:01.5Z","verb":"delete"}]''\<close>

definition text_bare :: string where
  \<open>text_bare = ''[{"kind":"Event","stageTimestamp":"2023-01-01T00:00:00.000000000Z"},{"kind":"Event"},{"kind":"Event","stageTimestamp":"2023-01-01T00:00:01.5Z","verb":"delete"}]''\<close>

definition value_list :: json where
  "value_list = JObject [(''kind'', JString ''EventList''), (''items'', JArray [event_A, event_B])]"

definition sample_ParseBytes :: "string \<Rightarrow> error + json" where
  "sample_ParseBytes b =
     (if b = ''[]'' then Inr (JArray [])
      else if b = ''{}'' then Inr (JObject [])
      else if b = text_A then Inr event_A
      else if b = text_list then Inr value_list
      else if b = text_mixed then Inr (JArray [event_A, JObject [], event_B])
      else if b = text_pair then Inr (JArray [event_A, event_B])
      else if b = text_pod
      then Inr (JArray [event_A, JObject [(''kind'', JString ''Pod'')], event_B])
      else if b = text_late
      then Inr (JArray [event_A,
                        JObject [(''kind'', JString ''Event''),
                                 (''stageTimestamp'', JString ''yesterday'')],
                        event_B])
      else if b = text_bare
      then Inr (JArray [event_A, JObject [(''kind'', JString ''Event'')], event_B])
      else Inl (Err ''cannot parse JSON''))"

text \<open>
  The compact serialisations \<^verbatim>\<open>MarshalTo\<close> gives the two events (66 and 74 bytes), a
  configuration in which the first fits and the second does not, a batch of three
  slots as \<^verbatim>\<open>NewEventWriters\<close> sizes them, two files, and the two kinds of source as
  \<^verbatim>\<open>openEventSource\<close> returns them.
\<close>

definition text_B :: string where
  \<open>text_B = ''{"kind":"Event","stageTimestamp":"2023-01-01T00:00:01.5Z","verb":"delete"}''\<close>

definition sample_MarshalTo :: "json \<Rightarrow> string" where
  "sample_MarshalTo v =
     (if v = event_A then text_A else if v = event_B then text_B else ''null'')"

definition sample_cfg :: config where
  "sample_cfg = \<lparr>MaxEventSize = 70, WebhookMaxBatchSize = 100\<rparr>"

definition empty_slot :: slot where
  "empty_slot = \<lparr>slot_cap = 70, slot_data = [], slot_ts = 0\<rparr>"

definition sample_batch :: "slot list" where
  "sample_batch = [empty_slot, empty_slot, empty_slot]"

definition sample_os_Open :: "string \<Rightarrow> error + scanned_file" where
  "sample_os_Open path =
     (if path = ''audit.log''
      then Inr \<lparr>scanned = [text_A, [], text_list], scanner_Err = None\<rparr>
      else if path = ''long_line.log''
      then Inr \<lparr>scanned = [text_A], scanner_Err = Some (Err ''bufio.Scanner: token too long'')\<rparr>
      else Inl (Err ''open: no such file or directory''))"

definition file_source :: eventSource where
  "file_source = \<lparr>eof = False, ctx_done = False, cancel = None, server = NoServer\<rparr>"

definition webhook_source :: eventSource where
  "webhook_source = \<lparr>eof = False, ctx_done = False, cancel = Some OnClose, server = Serving\<rparr>"

definition json_request :: request where
  "json_request =
     \<lparr>Method = ''POST'',
      Header = (\<lambda>key. if key = ''Content-Type'' then [''application/json; charset=utf-8''] else []),
      Body = text_A,
      Body_Err = None\<rparr>"

section \<open>The Normalizer\<close>

subsection \<open>Decoding one audit event\<close>

lemma parseItems_decoded:
  "map (parseJSONAuditEvent tp) items = map Inr evs \<Longrightarrow>
   parseItems tp items res = (res @ evs, None)"
proof (induction items arbitrary: res evs)
  case Nil
  then show ?case by simp
next
  case (Cons a items)
  then obtain ev evs' where "evs = ev # evs'" by (cases evs) auto
  with Cons show ?case by simp
qed

lemma object_with_timestamp_decodes:
  assumes "Object_Get kvs ''stageTimestamp'' = Some (JString s)" and "tp s = Inr t"
  shows "parseJSONAuditEvent tp (JObject kvs) = Inr \<lparr>Data = JObject kvs, Timestamp = t\<rparr>"
  using assms by (simp add: parseJSONAuditEvent_def)

lemma valid_items_decode:
  assumes "\<forall>item \<in> set items. \<exists>kvs s t. item = JObject kvs
             \<and> Object_Get kvs ''kind'' = Some (JString ''Event'')
             \<and> Object_Get kvs ''stageTimestamp'' = Some (JString s) \<and> tp s = Inr t"
  shows "\<exists>evs. map (parseJSONAuditEvent tp) items = map Inr evs \<and> map Data evs = items"
  using assms
proof (induction items)
  case Nil
  then show ?case by simp
next
  case (Cons a items)
  then obtain evs where
    evs: "map (parseJSONAuditEvent tp) items = map Inr evs" "map Data evs = items"
    by auto
  from Cons.prems obtain kvs s t where a: "a = JObject kvs"
    "Object_Get kvs ''stageTimestamp'' = Some (JString s)" "tp s = Inr t" by auto
  have "parseJSONAuditEvent tp a = Inr \<lparr>Data = a, Timestamp = t\<rparr>"
    using a object_with_timestamp_decodes by simp
  with evs have
    "map (parseJSONAuditEvent tp) (a # items) = map Inr (\<lparr>Data = a, Timestamp = t\<rparr> # evs)
     \<and> map Data (\<lparr>Data = a, Timestamp = t\<rparr> # evs) = a # items" by simp
  then show ?case by (rule exI)
qed

lemma EventList_records:
  assumes "Object_Get kvs ''kind'' = Some (JString ''EventList'')"
    and "Object_Get kvs ''items'' = Some (JArray items)"
    and "map (parseJSONAuditEvent tp) items = map Inr evs"
  shows "parseValue tp (JObject kvs) =
           (if items = [] then ([], Some not_recognized) else (evs, None))"
  using assms parseItems_decoded[of tp items evs "[]"]
  by (simp add: parseKind_def)

subsection \<open>The loop over the elements of an array\<close>

lemma parseElems_all_ok:
  "\<forall>v\<in>set vs. snd (parseValue tp v) = None \<Longrightarrow>
   parseElems tp vs res = (res @ concat (map (\<lambda>v. fst (parseValue tp v)) vs), None)"
proof (induction vs arbitrary: res)
  case Nil
  then show ?case by simp
next
  case (Cons v vs)
  then show ?case by (cases "parseValue tp v") auto
qed

lemma parseElems_append:
  "\<forall>v\<in>set pre. snd (parseValue tp v) = None \<Longrightarrow>
   parseElems tp (pre @ rest) res =
     parseElems tp rest (res @ concat (map (\<lambda>v. fst (parseValue tp v)) pre))"
proof (induction pre arbitrary: res)
  case Nil
  then show ?case by simp
next
  case (Cons v vs)
  then show ?case by (cases "parseValue tp v") auto
qed

lemma parseElems_first_error:
  assumes "\<forall>v\<in>set pre. snd (parseValue tp v) = None" and "snd (parseValue tp x) = Some err"
  shows "parseElems tp (pre @ x # post) res =
           (res @ concat (map (\<lambda>v. fst (parseValue tp v)) pre), Some err)"
  using assms(2) parseElems_append[OF assms(1), of "x # post" res]
  by (cases "parseValue tp x") auto

lemma parse_event_A: "parseValue sample_time_Parse event_A = ([record_A], None)"
  by (simp add: event_A_def record_A_def parseKind_def parseJSONAuditEvent_def
      sample_time_Parse_def)

lemma parse_event_B: "parseValue sample_time_Parse event_B = ([record_B], None)"
  by (simp add: event_B_def record_B_def parseKind_def parseJSONAuditEvent_def
      sample_time_Parse_def)

lemma parse_empty_object:
  "parseKind tp (JObject []) = ([], Some not_recognized)"
  by (simp add: parseKind_def)

subsection \<open>Single events\<close>

text \<open>
  Claim C5. A message that parses to a JSON object whose \<^verbatim>\<open>kind\<close> is the string
  \<^verbatim>\<open>Event\<close> and whose \<^verbatim>\<open>stageTimestamp\<close> is a string that \<^verbatim>\<open>time.Parse\<close> accepts
  yields exactly one record: its data is the object, its timestamp the parsed instant,
  and nothing is logged.
\<close>

theorem Event_yields_one_record:
  assumes "ParseBytes bytes = Inr (JObject kvs)"
    and "Object_Get kvs ''kind'' = Some (JString ''Event'')"
    and "Object_Get kvs ''stageTimestamp'' = Some (JString s)"
    and "time_Parse s = Inr t"
  shows "parseJSONMessage time_Parse (Some (JObject kvs))
           = ([\<lparr>Data = JObject kvs, Timestamp = t\<rparr>], None)
       \<and> handle_message ParseBytes time_Parse bytes
           = ([\<lparr>Data = JObject kvs, Timestamp = t\<rparr>], [])"
  using assms
  by (simp add: handle_message_def parseJSONMessage_def parseKind_def parseJSONAuditEvent_def)

theorem Event_yields_one_record_witness:
  "sample_ParseBytes text_A = Inr event_A
   \<and> sample_time_Parse ''2023-01-01T00:00:00.000000000Z'' = Inr 1672531200000000000
   \<and> handle_message sample_ParseBytes sample_time_Parse text_A
       = ([\<lparr>Data = event_A, Timestamp = 1672531200000000000\<rparr>], [])"
proof -
  have p: "sample_ParseBytes text_A
             = Inr (JObject [(''kind'', JString ''Event''),
                     (''stageTimestamp'', JString ''2023-01-01T00:00:00.000000000Z'')])"
    by (simp add: sample_ParseBytes_def text_A_def event_A_def)
  have k: "Object_Get [(''kind'', JString ''Event''),
                     (''stageTimestamp'', JString ''2023-01-01T00:00:00.000000000Z'')] ''kind''
             = Some (JString ''Event'')" by simp
  have s: "Object_Get [(''kind'', JString ''Event''),
                     (''stageTimestamp'', JString ''2023-01-01T00:00:00.000000000Z'')]
             ''stageTimestamp'' = Some (JString ''2023-01-01T00:00:00.000000000Z'')" by simp
  have t: "sample_time_Parse ''2023-01-01T00:00:00.000000000Z'' = Inr 1672531200000000000"
    by (simp add: sample_time_Parse_def)
  show ?thesis
    using Event_yields_one_record[of sample_ParseBytes text_A
        "[(''kind'', JString ''Event''),
          (''stageTimestamp'', JString ''2023-01-01T00:00:00.000000000Z'')]"
        "''2023-01-01T00:00:00.000000000Z''" sample_time_Parse 1672531200000000000] p k s t
    by (simp add: event_A_def)
qed

subsection \<open>Event lists\<close>

text \<open>
  Claim C6. A message that parses to an object of kind \<^verbatim>\<open>EventList\<close> whose
  \<^verbatim>\<open>items\<close> array holds N valid Event objects yields exactly N records, in the order
  of the array: the k-th record is the decoding of the k-th item. (For N = 0 the code
  takes the "not recognized" exit, which also sends no record.)
\<close>

theorem EventList_yields_items_in_order:
  assumes "ParseBytes bytes = Inr (JObject kvs)"
    and "Object_Get kvs ''kind'' = Some (JString ''EventList'')"
    and "Object_Get kvs ''items'' = Some (JArray items)"
    and "\<forall>item \<in> set items. \<exists>obj s t. item = JObject obj
             \<and> Object_Get obj ''kind'' = Some (JString ''Event'')
             \<and> Object_Get obj ''stageTimestamp'' = Some (JString s) \<and> time_Parse s = Inr t"
  shows "length (fst (handle_message ParseBytes time_Parse bytes)) = length items
       \<and> map Data (fst (handle_message ParseBytes time_Parse bytes)) = items
       \<and> map Inr (fst (handle_message ParseBytes time_Parse bytes))
           = map (parseJSONAuditEvent time_Parse) items"
proof -
  from valid_items_decode[OF assms(4)] obtain evs where
    evs: "map (parseJSONAuditEvent time_Parse) items = map Inr evs" "map Data evs = items"
    by blast
  have len: "length evs = length items" using arg_cong[OF evs(2), of length] by simp
  have "fst (handle_message ParseBytes time_Parse bytes) = evs"
    using EventList_records[OF assms(2,3) evs(1)] assms(1) len
    by (auto simp: handle_message_def parseJSONMessage_def)
  then show ?thesis using evs len by simp
qed

theorem EventList_yields_items_in_order_witness:
  "fst (handle_message sample_ParseBytes sample_time_Parse text_list) = [record_A, record_B]"
proof -
  have p: "sample_ParseBytes text_list
             = Inr (JObject [(''kind'', JString ''EventList''), (''items'', JArray [event_A, event_B])])"
    by (simp add: sample_ParseBytes_def text_list_def text_A_def value_list_def)
  have k: "Object_Get [(''kind'', JString ''EventList''), (''items'', JArray [event_A, event_B])]
             ''kind'' = Some (JString ''EventList'')" by simp
  have i: "Object_Get [(''kind'', JString ''EventList''), (''items'', JArray [event_A, event_B])]
             ''items'' = Some (JArray [event_A, event_B])" by simp
  have v: "\<forall>item \<in> set [event_A, event_B]. \<exists>obj s t. item = JObject obj
             \<and> Object_Get obj ''kind'' = Some (JString ''Event'')
             \<and> Object_Get obj ''stageTimestamp'' = Some (JString s) \<and> sample_time_Parse s = Inr t"
    by (simp add: event_A_def event_B_def sample_time_Parse_def)
  have d: "map (parseJSONAuditEvent sample_time_Parse) [event_A, event_B]
             = map Inr [record_A, record_B]"
    by (simp add: event_A_def event_B_def record_A_def record_B_def parseJSONAuditEvent_def
        sample_time_Parse_def)
  from EventList_yields_items_in_order[of sample_ParseBytes text_list
      "[(''kind'', JString ''EventList''), (''items'', JArray [event_A, event_B])]"
      "[event_A, event_B]" sample_time_Parse] p k i v
  have "map Inr (fst (handle_message sample_ParseBytes sample_time_Parse text_list))
          = (map Inr [record_A, record_B] :: (error + auditEvent) list)"
    using d by simp
  then show ?thesis by (auto simp: map_eq_Cons_conv)
qed

subsection \<open>The empty array\<close>

text \<open>
  Claim C10. A message that parses to the empty JSON array yields no record and no
  error, and nothing is logged for it; the empty object, in contrast, is reported as
  not recognized.
\<close>

theorem empty_array_is_silent:
  assumes "ParseBytes bytes = Inr (JArray [])"
  shows "parseJSONMessage time_Parse (Some (JArray [])) = ([], None)
       \<and> handle_message ParseBytes time_Parse bytes = ([], [])
       \<and> parseJSONMessage time_Parse (Some (JObject [])) = ([], Some not_recognized)"
  using assms by (simp add: handle_message_def parseJSONMessage_def parseKind_def)

theorem empty_array_is_silent_witness:
  "sample_ParseBytes ''[]'' = Inr (JArray [])
   \<and> handle_message sample_ParseBytes sample_time_Parse ''[]'' = ([], [])
   \<and> handle_message sample_ParseBytes sample_time_Parse ''{}''
       = ([], [''data not recognized as a k8s audit event''])"
proof -
  have p: "sample_ParseBytes ''[]'' = Inr (JArray [])" by (simp add: sample_ParseBytes_def)
  have q: "handle_message sample_ParseBytes sample_time_Parse ''{}''
       = ([], [''data not recognized as a k8s audit event''])"
    by (simp add: sample_ParseBytes_def handle_message_def parseJSONMessage_def parseKind_def
        not_recognized_def)
  show ?thesis using empty_array_is_silent[of sample_ParseBytes "''[]''" sample_time_Parse] p q by simp
qed

subsection \<open>Arrays with an element that fails\<close>

text \<open>
  Claim C3 says that an element of unrecognized shape is skipped while the records of
  the other elements of the array are still sent. On the array of \<open>event_A\<close>, the empty
  object and \<open>event_B\<close> the loop stops at the empty object with the "not recognized"
  error, and the parsing goroutine logs it and sends nothing, although both events
  decode on their own.
\<close>

theorem unrecognized_element_counterexample:
  "sample_ParseBytes text_mixed = Inr (JArray [event_A, JObject [], event_B])
   \<and> parseValue sample_time_Parse event_A = ([record_A], None)
   \<and> parseValue sample_time_Parse (JObject []) = ([], Some not_recognized)
   \<and> parseValue sample_time_Parse event_B = ([record_B], None)
   \<and> parseJSONMessage sample_time_Parse (Some (JArray [event_A, JObject [], event_B]))
       = ([record_A], Some not_recognized)
   \<and> handle_message sample_ParseBytes sample_time_Parse text_mixed
       = ([], [''data not recognized as a k8s audit event''])
   \<and> fst (handle_message sample_ParseBytes sample_time_Parse text_mixed) \<noteq> [record_A, record_B]"
proof -
  have p: "sample_ParseBytes text_mixed = Inr (JArray [event_A, JObject [], event_B])"
    by (simp add: sample_ParseBytes_def text_mixed_def text_A_def text_list_def)
  have m: "parseJSONMessage sample_time_Parse (Some (JArray [event_A, JObject [], event_B]))
       = ([record_A], Some not_recognized)"
    by (simp add: parseJSONMessage_def parse_event_A parse_event_B parse_empty_object)
  have h: "handle_message sample_ParseBytes sample_time_Parse text_mixed
       = ([], [''data not recognized as a k8s audit event''])"
    by (simp add: handle_message_def p m) (simp add: not_recognized_def)
  show ?thesis using p m h parse_event_A parse_event_B parse_empty_object by simp
qed

lemma Get_kind_not_array: "Get x ''kind'' = Some k \<Longrightarrow> parseValue tp x = parseKind tp x"
  by (cases x) (simp_all add: Atoi_def digit_of_def)

lemma parseValue_not_array: "\<forall>a. x \<noteq> JArray a \<Longrightarrow> parseValue tp x = parseKind tp x"
  by (cases x) simp_all

lemma parseItems_first_error:
  assumes "map (parseJSONAuditEvent tp) ipre = map Inr evs"
    and "parseJSONAuditEvent tp it = Inl err"
  shows "parseItems tp (ipre @ it # ipost) res = ([], Some err)"
  using assms
proof (induction ipre arbitrary: res evs)
  case Nil
  then show ?case by simp
next
  case (Cons a ipre)
  then obtain ev evs' where "evs = ev # evs'" by (cases evs) auto
  with Cons show ?case by simp
qed

lemma items_with_timestamp_decode:
  assumes "\<forall>i\<in>set ipre. \<exists>ts t. Get i ''stageTimestamp'' = Some ts
             \<and> tp (case GetStringBytes ts of None \<Rightarrow> [] | Some b \<Rightarrow> b) = Inr t"
  shows "\<exists>evs. map (parseJSONAuditEvent tp) ipre = map Inr evs"
  using assms
proof (induction ipre)
  case Nil
  then show ?case by simp
next
  case (Cons i ipre)
  then obtain evs where evs: "map (parseJSONAuditEvent tp) ipre = map Inr evs" by auto
  from Cons.prems obtain ts t where "Get i ''stageTimestamp'' = Some ts"
    "tp (case GetStringBytes ts of None \<Rightarrow> [] | Some b \<Rightarrow> b) = Inr t" by auto
  then have "parseJSONAuditEvent tp i = Inr \<lparr>Data = i, Timestamp = t\<rparr>"
    by (simp add: parseJSONAuditEvent_def)
  with evs have "map (parseJSONAuditEvent tp) (i # ipre) = map Inr (\<lparr>Data = i, Timestamp = t\<rparr> # evs)"
    by simp
  then show ?case by (rule exI)
qed

lemma item_errors:
  "Get it ''stageTimestamp'' = None \<Longrightarrow>
     parseJSONAuditEvent tp it = Inl (Err ''can't read stageTimestamp'')"
  "Get it ''stageTimestamp'' = Some ts \<Longrightarrow>
   tp (case GetStringBytes ts of None \<Rightarrow> [] | Some b \<Rightarrow> b) = Inl err \<Longrightarrow>
     parseJSONAuditEvent tp it = Inl err"
  by (simp_all add: parseJSONAuditEvent_def)

lemma unrecognized_element_errors:
  assumes "((\<forall>a. x \<noteq> JArray a) \<and> Get x ''kind'' = None)
         \<or> (\<exists>k. Get x ''kind'' = Some k \<and> GetStringBytes k = None)
         \<or> (\<exists>s. Get x ''kind'' = Some (JString s) \<and> s \<noteq> ''Event'' \<and> s \<noteq> ''EventList'')
         \<or> (Get x ''kind'' = Some (JString ''EventList'') \<and> GetArray (Get x ''items'') = None)"
  shows "parseValue tp x = ([], Some not_recognized)"
  using assms
  by (auto simp: parseValue_not_array Get_kind_not_array parseKind_def)

lemma Event_element_errors:
  assumes "Get x ''kind'' = Some (JString ''Event'')"
    and "parseJSONAuditEvent tp x = Inl err"
  shows "parseValue tp x = ([], Some err)"
  using assms by (simp add: Get_kind_not_array parseKind_def)

lemma EventList_element_errors:
  assumes "Get x ''kind'' = Some (JString ''EventList'')"
    and "GetArray (Get x ''items'') = Some (ipre @ it # ipost)"
    and "\<forall>i\<in>set ipre. \<exists>ts t. Get i ''stageTimestamp'' = Some ts
             \<and> tp (case GetStringBytes ts of None \<Rightarrow> [] | Some b \<Rightarrow> b) = Inr t"
    and "parseJSONAuditEvent tp it = Inl err"
  shows "parseValue tp x = ([], Some err)"
proof -
  from items_with_timestamp_decode[OF assms(3)] obtain evs where
    "map (parseJSONAuditEvent tp) ipre = map Inr evs" by blast
  then have "parseItems tp (ipre @ it # ipost) [] = ([], Some err)"
    using assms(4) by (rule parseItems_first_error)
  then show ?thesis using assms(1,2) by (simp add: Get_kind_not_array parseKind_def)
qed

text \<open>
  Claim C3, amended. An array all of whose elements are processed without error yields
  the concatenation of their records, in order. The first element that returns an
  error ends the loop: \<^verbatim>\<open>parseJSONMessage\<close> returns that error, the goroutine logs it
  and no record of the message is sent. An element returns an error when it is not an
  array and has no \<^verbatim>\<open>kind\<close> member, when its \<^verbatim>\<open>kind\<close> is not a string or is a string
  other than \<^verbatim>\<open>Event\<close> and \<^verbatim>\<open>EventList\<close> (all three "not recognized"), when it is an
  \<^verbatim>\<open>Event\<close> whose \<^verbatim>\<open>stageTimestamp\<close> is missing or is rejected by \<^verbatim>\<open>time.Parse\<close>, and
  when it is an \<^verbatim>\<open>EventList\<close> whose \<^verbatim>\<open>items\<close> slice is nil or has an item whose
  \<^verbatim>\<open>stageTimestamp\<close> is missing or rejected; any other element that returns an error
  (a nested array that stops) does the same.
\<close>

theorem array_stops_at_first_error:
  assumes "ParseBytes bytes = Inr (JArray a)"
  shows
   "((\<forall>v\<in>set a. snd (parseValue time_Parse v) = None)
       \<longrightarrow> handle_message ParseBytes time_Parse bytes
             = (concat (map (\<lambda>v. fst (parseValue time_Parse v)) a), []))
    \<and> (a = pre @ x # post \<and> (\<forall>v\<in>set pre. snd (parseValue time_Parse v) = None)
        \<and> (snd (parseValue time_Parse x) = Some err
            \<or> ((\<forall>a'. x \<noteq> JArray a') \<and> Get x ''kind'' = None \<and> err = not_recognized)
            \<or> (\<exists>k. Get x ''kind'' = Some k \<and> GetStringBytes k = None \<and> err = not_recognized)
            \<or> (\<exists>s. Get x ''kind'' = Some (JString s) \<and> s \<noteq> ''Event'' \<and> s \<noteq> ''EventList''
                  \<and> err = not_recognized)
            \<or> (Get x ''kind'' = Some (JString ''Event'') \<and> Get x ''stageTimestamp'' = None
                  \<and> err = Err ''can't read stageTimestamp'')
            \<or> (\<exists>ts. Get x ''kind'' = Some (JString ''Event'')
                  \<and> Get x ''stageTimestamp'' = Some ts
                  \<and> time_Parse (case GetStringBytes ts of None \<Rightarrow> [] | Some b \<Rightarrow> b) = Inl err)
            \<or> (Get x ''kind'' = Some (JString ''EventList'')
                  \<and> GetArray (Get x ''items'') = None \<and> err = not_recognized)
            \<or> (\<exists>ipre it ipost. Get x ''kind'' = Some (JString ''EventList'')
                  \<and> GetArray (Get x ''items'') = Some (ipre @ it # ipost)
                  \<and> (\<forall>i\<in>set ipre. \<exists>ts t. Get i ''stageTimestamp'' = Some ts
                        \<and> time_Parse (case GetStringBytes ts of None \<Rightarrow> [] | Some b \<Rightarrow> b)
                            = Inr t)
                  \<and> ((Get it ''stageTimestamp'' = None
                        \<and> err = Err ''can't read stageTimestamp'')
                      \<or> (\<exists>ts. Get it ''stageTimestamp'' = Some ts
                            \<and> time_Parse (case GetStringBytes ts of None \<Rightarrow> [] | Some b \<Rightarrow> b)
                                = Inl err))))
       \<longrightarrow> parseJSONMessage time_Parse (Some (JArray a))
             = (concat (map (\<lambda>v. fst (parseValue time_Parse v)) pre), Some err)
           \<and> handle_message ParseBytes time_Parse bytes = ([], [Error err]))"
proof -
  have ok: "handle_message ParseBytes time_Parse bytes
              = (concat (map (\<lambda>v. fst (parseValue time_Parse v)) a), [])"
    if "\<forall>v\<in>set a. snd (parseValue time_Parse v) = None"
    using that assms by (simp add: handle_message_def parseJSONMessage_def parseElems_all_ok)
  have stop: "parseJSONMessage time_Parse (Some (JArray a))
             = (concat (map (\<lambda>v. fst (parseValue time_Parse v)) pre), Some err)
           \<and> handle_message ParseBytes time_Parse bytes = ([], [Error err])"
    if a: "a = pre @ x # post" and pre: "\<forall>v\<in>set pre. snd (parseValue time_Parse v) = None"
      and x: "snd (parseValue time_Parse x) = Some err"
    using assms a parseElems_first_error[OF pre x, of post "[]"]
    by (simp add: handle_message_def parseJSONMessage_def)
  have fails: "snd (parseValue time_Parse x) = Some err"
    if "snd (parseValue time_Parse x) = Some err
            \<or> ((\<forall>a'. x \<noteq> JArray a') \<and> Get x ''kind'' = None \<and> err = not_recognized)
            \<or> (\<exists>k. Get x ''kind'' = Some k \<and> GetStringBytes k = None \<and> err = not_recognized)
            \<or> (\<exists>s. Get x ''kind'' = Some (JString s) \<and> s \<noteq> ''Event'' \<and> s \<noteq> ''EventList''
                  \<and> err = not_recognized)
            \<or> (Get x ''kind'' = Some (JString ''Event'') \<and> Get x ''stageTimestamp'' = None
                  \<and> err = Err ''can't read stageTimestamp'')
            \<or> (\<exists>ts. Get x ''kind'' = Some (JString ''Event'')
                  \<and> Get x ''stageTimestamp'' = Some ts
                  \<and> time_Parse (case GetStringBytes ts of None \<Rightarrow> [] | Some b \<Rightarrow> b) = Inl err)
            \<or> (Get x ''kind'' = Some (JString ''EventList'')
                  \<and> GetArray (Get x ''items'') = None \<and> err = not_recognized)
            \<or> (\<exists>ipre it ipost. Get x ''kind'' = Some (JString ''EventList'')
                  \<and> GetArray (Get x ''items'') = Some (ipre @ it # ipost)
                  \<and> (\<forall>i\<in>set ipre. \<exists>ts t. Get i ''stageTimestamp'' = Some ts
                        \<and> time_Parse (case GetStringBytes ts of None \<Rightarrow> [] | Some b \<Rightarrow> b)
                            = Inr t)
                  \<and> ((Get it ''stageTimestamp'' = None
                        \<and> err = Err ''can't read stageTimestamp'')
                      \<or> (\<exists>ts. Get it ''stageTimestamp'' = Some ts
                            \<and> time_Parse (case GetStringBytes ts of None \<Rightarrow> [] | Some b \<Rightarrow> b)
                                = Inl err)))"
    using that
  proof (elim disjE exE conjE)
    assume "snd (parseValue time_Parse x) = Some err"
    then show ?thesis .
  next
    assume "\<forall>a'. x \<noteq> JArray a'" "Get x ''kind'' = None" "err = not_recognized"
    then show ?thesis using unrecognized_element_errors[of x time_Parse] by simp
  next
    fix k assume "Get x ''kind'' = Some k" "GetStringBytes k = None" "err = not_recognized"
    then show ?thesis using unrecognized_element_errors[of x time_Parse] by auto
  next
    fix s assume "Get x ''kind'' = Some (JString s)" "s \<noteq> ''Event''" "s \<noteq> ''EventList''"
      "err = not_recognized"
    then show ?thesis using unrecognized_element_errors[of x time_Parse] by auto
  next
    assume k: "Get x ''kind'' = Some (JString ''Event'')" and "Get x ''stageTimestamp'' = None"
      "err = Err ''can't read stageTimestamp''"
    then have "parseJSONAuditEvent time_Parse x = Inl err" by (simp add: item_errors)
    then show ?thesis using Event_element_errors[OF k] by simp
  next
    fix ts assume k: "Get x ''kind'' = Some (JString ''Event'')"
      and "Get x ''stageTimestamp'' = Some ts"
      "time_Parse (case GetStringBytes ts of None \<Rightarrow> [] | Some b \<Rightarrow> b) = Inl err"
    then have "parseJSONAuditEvent time_Parse x = Inl err" by (simp add: item_errors)
    then show ?thesis using Event_element_errors[OF k] by simp
  next
    assume "Get x ''kind'' = Some (JString ''EventList'')" "GetArray (Get x ''items'') = None"
      "err = not_recognized"
    then show ?thesis using unrecognized_element_errors[of x time_Parse] by simp
  next
    fix ipre it ipost
    assume k: "Get x ''kind'' = Some (JString ''EventList'')"
      and items: "GetArray (Get x ''items'') = Some (ipre @ it # ipost)"
      and ipre: "\<forall>i\<in>set ipre. \<exists>ts t. Get i ''stageTimestamp'' = Some ts
                        \<and> time_Parse (case GetStringBytes ts of None \<Rightarrow> [] | Some b \<Rightarrow> b)
                            = Inr t"
      and "Get it ''stageTimestamp'' = None" "err = Err ''can't read stageTimestamp''"
    then have "parseJSONAuditEvent time_Parse it = Inl err" by (simp add: item_errors)
    then show ?thesis using EventList_element_errors[OF k items ipre] by simp
  next
    fix ipre it ipost ts
    assume k: "Get x ''kind'' = Some (JString ''EventList'')"
      and items: "GetArray (Get x ''items'') = Some (ipre @ it # ipost)"
      and ipre: "\<forall>i\<in>set ipre. \<exists>ts t. Get i ''stageTimestamp'' = Some ts
                        \<and> time_Parse (case GetStringBytes ts of None \<Rightarrow> [] | Some b \<Rightarrow> b)
                            = Inr t"
      and "Get it ''stageTimestamp'' = Some ts"
      "time_Parse (case GetStringBytes ts of None \<Rightarrow> [] | Some b \<Rightarrow> b) = Inl err"
    then have "parseJSONAuditEvent time_Parse it = Inl err" by (simp add: item_errors)
    then show ?thesis using EventList_element_errors[OF k items ipre] by simp
  qed
  show ?thesis using ok stop fails by blast
qed

theorem array_stops_at_first_error_witness:
  "handle_message sample_ParseBytes sample_time_Parse text_pair = ([record_A, record_B], [])
   \<and> handle_message sample_ParseBytes sample_time_Parse text_mixed
       = ([], [''data not recognized as a k8s audit event''])
   \<and> handle_message sample_ParseBytes sample_time_Parse text_pod
       = ([], [''data not recognized as a k8s audit event''])
   \<and> handle_message sample_ParseBytes sample_time_Parse text_late
       = ([], [''parsing time: cannot parse''])
   \<and> handle_message sample_ParseBytes sample_time_Parse text_bare
       = ([], [''can't read stageTimestamp''])"
proof -
  note texts = text_pair_def text_mixed_def text_A_def text_list_def text_pod_def text_late_def
    text_bare_def
  let ?pod = "JObject [(''kind'', JString ''Pod'')]"
  let ?late = "JObject [(''kind'', JString ''Event''), (''stageTimestamp'', JString ''yesterday'')]"
  let ?bare = "JObject [(''kind'', JString ''Event'')]"
  have p1: "sample_ParseBytes text_pair = Inr (JArray [event_A, event_B])"
    by (simp add: sample_ParseBytes_def texts)
  have p2: "sample_ParseBytes text_mixed = Inr (JArray [event_A, JObject [], event_B])"
    by (simp add: sample_ParseBytes_def texts)
  have p3: "sample_ParseBytes text_pod = Inr (JArray [event_A, ?pod, event_B])"
    by (simp add: sample_ParseBytes_def texts)
  have p4: "sample_ParseBytes text_late = Inr (JArray [event_A, ?late, event_B])"
    by (simp add: sample_ParseBytes_def texts)
  have p5: "sample_ParseBytes text_bare = Inr (JArray [event_A, ?bare, event_B])"
    by (simp add: sample_ParseBytes_def texts)
  have ok: "\<forall>v\<in>set [event_A, event_B]. snd (parseValue sample_time_Parse v) = None"
    by (simp add: parse_event_A parse_event_B)
  have ok1: "\<forall>v\<in>set [event_A]. snd (parseValue sample_time_Parse v) = None"
    by (simp add: parse_event_A)
  have tl: "sample_time_Parse ''yesterday'' = Inl (Err ''parsing time: cannot parse'')"
    by (simp add: sample_time_Parse_def)
  have a: "handle_message sample_ParseBytes sample_time_Parse text_pair = ([record_A, record_B], [])"
    using array_stops_at_first_error[where ParseBytes = sample_ParseBytes and bytes = text_pair
        and a = "[event_A, event_B]" and time_Parse = sample_time_Parse] p1 ok
    by (simp add: parse_event_A parse_event_B)
  have b: "handle_message sample_ParseBytes sample_time_Parse text_mixed
       = ([], [''data not recognized as a k8s audit event''])"
    using array_stops_at_first_error[where ParseBytes = sample_ParseBytes and bytes = text_mixed
        and a = "[event_A, JObject [], event_B]" and time_Parse = sample_time_Parse and pre = "[event_A]"
        and x = "JObject []" and post = "[event_B]" and err = not_recognized] p2 ok1
    by (simp add: not_recognized_def)
  have c: "handle_message sample_ParseBytes sample_time_Parse text_pod
       = ([], [''data not recognized as a k8s audit event''])"
    using array_stops_at_first_error[where ParseBytes = sample_ParseBytes and bytes = text_pod
        and a = "[event_A, ?pod, event_B]" and time_Parse = sample_time_Parse and pre = "[event_A]"
        and x = ?pod and post = "[event_B]" and err = not_recognized] p3 ok1
    by (simp add: not_recognized_def)
  have d: "handle_message sample_ParseBytes sample_time_Parse text_late
       = ([], [''parsing time: cannot parse''])"
    using array_stops_at_first_error[where ParseBytes = sample_ParseBytes and bytes = text_late
        and a = "[event_A, ?late, event_B]" and time_Parse = sample_time_Parse and pre = "[event_A]"
        and x = ?late and post = "[event_B]" and err = "Err ''parsing time: cannot parse''"] p4 ok1 tl
    by simp
  have e: "handle_message sample_ParseBytes sample_time_Parse text_bare
       = ([], [''can't read stageTimestamp''])"
    using array_stops_at_first_error[where ParseBytes = sample_ParseBytes and bytes = text_bare
        and a = "[event_A, ?bare, event_B]" and time_Parse = sample_time_Parse and pre = "[event_A]"
        and x = ?bare and post = "[event_B]" and err = "Err ''can't read stageTimestamp''"] p5 ok1
    by simp
  show ?thesis using a b c d e by simp
qed

section \<open>The webhook handler\<close>

lemma strings_Contains_iff: "strings_Contains s sub \<longleftrightarrow> (\<exists>p q. s = p @ sub @ q)"
  by (simp add: strings_Contains_def sublist_def)

lemma json_content_type: "strings_Contains ''application/json; charset=utf-8'' ''application/json''"
  by (simp add: strings_Contains_def)

lemma plain_content_type: "\<not> strings_Contains ''text/plain'' ''application/json''"
  by (simp add: strings_Contains_def sublist_Cons_right)

text \<open>
  Claim C8. The handler checks, in this order, the method, the content type and the
  body. A method other than POST is answered 405 and nothing is enqueued. A POST whose
  \<^verbatim>\<open>Content-Type\<close> does not contain \<^verbatim>\<open>application/json\<close> is answered 400 and nothing
  is enqueued. A POST with such a content type whose body is longer than the configured
  maximum, or whose body fails to read, is answered 400 with the message
  \<^verbatim>\<open>bad request: \<close> followed by the error's text, and nothing is enqueued. Every other
  POST is answered 200 with an empty body and its body is enqueued as one raw message.
\<close>

theorem handler_contract:
  "(Method req \<noteq> ''POST'' \<longrightarrow>
      handler cfg req = \<lparr>resp = http_Error (Method req @ '' method not allowed'') 405,
                          enqueued = [], hlog = []\<rparr>)
   \<and> (Method req = ''POST''
        \<and> \<not> (\<exists>p q. Header_Get (Header req) ''Content-Type'' = p @ ''application/json'' @ q) \<longrightarrow>
      handler cfg req = \<lparr>resp = http_Error ''wrong Content Type'' 400,
                          enqueued = [], hlog = []\<rparr>)
   \<and> (Method req = ''POST''
        \<and> (\<exists>p q. Header_Get (Header req) ''Content-Type'' = p @ ''application/json'' @ q)
        \<and> WebhookMaxBatchSize cfg < length (Body req) \<longrightarrow>
      handler cfg req = \<lparr>resp = http_Error ''bad request: http: request body too large'' 400,
                          enqueued = [],
                          hlog = [''bad request: http: request body too large'']\<rparr>)
   \<and> (Method req = ''POST''
        \<and> (\<exists>p q. Header_Get (Header req) ''Content-Type'' = p @ ''application/json'' @ q)
        \<and> length (Body req) \<le> WebhookMaxBatchSize cfg \<and> Body_Err req = Some err \<longrightarrow>
      handler cfg req = \<lparr>resp = http_Error (''bad request: '' @ Error err) 400,
                          enqueued = [], hlog = [''bad request: '' @ Error err]\<rparr>)
   \<and> (Method req = ''POST''
        \<and> (\<exists>p q. Header_Get (Header req) ''Content-Type'' = p @ ''application/json'' @ q)
        \<and> length (Body req) \<le> WebhookMaxBatchSize cfg \<and> Body_Err req = None \<longrightarrow>
      handler cfg req = \<lparr>resp = \<lparr>StatusCode = 200, resp_body = []\<rparr>,
                          enqueued = [Body req], hlog = []\<rparr>)"
  unfolding handler_def strings_Contains_iff[symmetric] ReadAll_MaxBytes_def
    StatusMethodNotAllowed_def StatusBadRequest_def StatusOK_def
  by (simp add: Let_def)

theorem handler_contract_witness:
  "handler sample_cfg (json_request\<lparr>Method := ''GET''\<rparr>)
     = \<lparr>resp = \<lparr>StatusCode = 405, resp_body = ''GET method not allowed'' @ [CHR 0x0A]\<rparr>,
        enqueued = [], hlog = []\<rparr>
   \<and> handler sample_cfg (json_request\<lparr>Header := (\<lambda>key. [''text/plain''])\<rparr>)
     = \<lparr>resp = \<lparr>StatusCode = 400, resp_body = ''wrong Content Type'' @ [CHR 0x0A]\<rparr>,
        enqueued = [], hlog = []\<rparr>
   \<and> handler sample_cfg (json_request\<lparr>Body := text_A @ text_B\<rparr>)
     = \<lparr>resp = \<lparr>StatusCode = 400,
                 resp_body = ''bad request: http: request body too large'' @ [CHR 0x0A]\<rparr>,
        enqueued = [], hlog = [''bad request: http: request body too large'']\<rparr>
   \<and> handler sample_cfg (json_request\<lparr>Body_Err := Some (Err ''unexpected EOF'')\<rparr>)
     = \<lparr>resp = \<lparr>StatusCode = 400, resp_body = ''bad request: unexpected EOF'' @ [CHR 0x0A]\<rparr>,
        enqueued = [], hlog = [''bad request: unexpected EOF'']\<rparr>
   \<and> handler sample_cfg json_request
     = \<lparr>resp = \<lparr>StatusCode = 200, resp_body = []\<rparr>, enqueued = [text_A], hlog = []\<rparr>"
proof -
  have ct: "\<exists>p q. ''application/json; charset=utf-8'' = p @ ''application/json'' @ q"
    using json_content_type strings_Contains_iff by blast
  have nct: "\<not> (\<exists>p q. ''text/plain'' = p @ ''application/json'' @ q)"
    using plain_content_type strings_Contains_iff by blast
  have a: "handler sample_cfg (json_request\<lparr>Method := ''GET''\<rparr>)
     = \<lparr>resp = \<lparr>StatusCode = 405, resp_body = ''GET method not allowed'' @ [CHR 0x0A]\<rparr>,
        enqueued = [], hlog = []\<rparr>"
    using handler_contract[of "json_request\<lparr>Method := ''GET''\<rparr>" sample_cfg]
    by (simp add: json_request_def http_Error_def)
  have b: "handler sample_cfg (json_request\<lparr>Header := (\<lambda>key. [''text/plain''])\<rparr>)
     = \<lparr>resp = \<lparr>StatusCode = 400, resp_body = ''wrong Content Type'' @ [CHR 0x0A]\<rparr>,
        enqueued = [], hlog = []\<rparr>"
    using handler_contract[of "json_request\<lparr>Header := (\<lambda>key. [''text/plain''])\<rparr>" sample_cfg] nct
    by (simp add: json_request_def http_Error_def Header_Get_def)
  have c: "handler sample_cfg (json_request\<lparr>Body := text_A @ text_B\<rparr>)
     = \<lparr>resp = \<lparr>StatusCode = 400,
                 resp_body = ''bad request: http: request body too large'' @ [CHR 0x0A]\<rparr>,
        enqueued = [], hlog = [''bad request: http: request body too large'']\<rparr>"
    using handler_contract[of "json_request\<lparr>Body := text_A @ text_B\<rparr>" sample_cfg] ct
    by (simp add: json_request_def http_Error_def Header_Get_def sample_cfg_def text_A_def
        text_B_def)
  have d: "handler sample_cfg (json_request\<lparr>Body_Err := Some (Err ''unexpected EOF'')\<rparr>)
     = \<lparr>resp = \<lparr>StatusCode = 400, resp_body = ''bad request: unexpected EOF'' @ [CHR 0x0A]\<rparr>,
        enqueued = [], hlog = [''bad request: unexpected EOF'']\<rparr>"
    using handler_contract[of "json_request\<lparr>Body_Err := Some (Err ''unexpected EOF'')\<rparr>"
        sample_cfg "Err ''unexpected EOF''"] ct
    by (simp add: json_request_def http_Error_def Header_Get_def sample_cfg_def text_A_def)
  have e: "handler sample_cfg json_request
     = \<lparr>resp = \<lparr>StatusCode = 200, resp_body = []\<rparr>, enqueued = [text_A], hlog = []\<rparr>"
    using handler_contract[of json_request sample_cfg] ct
    by (simp add: json_request_def Header_Get_def sample_cfg_def text_A_def)
  show ?thesis using a b c d e by simp
qed

section \<open>Closing a source\<close>

lemma open_file_source:
  "OpenFilePath os_Open writers path = Inr ((e, evts), acts) \<Longrightarrow>
   e = file_source \<and> writers = Inr evts
   \<and> (\<exists>f. os_Open path = Inr f \<and> acts = file_goroutine None f)"
  by (auto simp: OpenFilePath_def openEventSource_def file_source_def
      split: sum.splits option.splits)

lemma open_webhook_source:
  "OpenWebServer writers = Inr (e, evts) \<Longrightarrow> e = webhook_source \<and> writers = Inr evts"
  by (auto simp: OpenWebServer_def openEventSource_def webhook_source_def split: sum.splits)

text \<open>
  Claim C9 says that \<^verbatim>\<open>Close\<close> fires the cancellation signal of every open source,
  file or webhook. A source opened on a file has no callback and its context is the
  background context: \<^verbatim>\<open>Close\<close> does nothing, the context is not cancelled, and the
  next call of \<^verbatim>\<open>NextBatch\<close> still delivers a record.
\<close>

theorem Close_file_source_counterexample:
  "OpenFilePath sample_os_Open (Inr sample_batch) ''audit.log''
     = Inr ((file_source, sample_batch),
            [SendMsg text_A, SendMsg text_list, CloseErrorChan, CloseEventChan])
   \<and> Close file_source = (file_source, [])
   \<and> \<not> ctx_done (fst (Close file_source))
   \<and> count (NextBatch sample_MarshalTo sample_cfg (fst (Close file_source)) sample_batch
              [(0, CtxDone), (0, RecvEvent record_A)]) = 1"
  by (simp add: OpenFilePath_def sample_os_Open_def openEventSource_def file_source_def
      file_goroutine_def text_A_def text_list_def Close_def NextBatch_def
      defaultEventTimeout_def Millisecond_def sample_batch_def empty_slot_def
      sample_MarshalTo_def record_A_def sample_cfg_def Write_def)

text \<open>
  Claim C9, amended. On a webhook source \<^verbatim>\<open>Close\<close> shuts the listener down with a
  grace period of at most 5 seconds (exactly 5 seconds on a source that was not closed
  before) and then cancels the context; closing again leaves the source as the first
  call left it. On a file source \<^verbatim>\<open>Close\<close> does nothing: the callback is nil and no
  cancellation signal is fired.
\<close>

theorem Close_by_variant:
  "(cancel e = Some OnClose \<longrightarrow>
      ctx_done (fst (Close e)) \<and> server (fst (Close e)) = ShutDown
      \<and> snd (Close e) = [ServerShutdown (if ctx_done e then 0 else 5 * Second), CancelCtx]
      \<and> fst (Close (fst (Close e))) = fst (Close e))
   \<and> (cancel e = None \<longrightarrow> Close e = (e, []))
   \<and> (OpenWebServer writers = Inr (e, evts) \<longrightarrow>
        cancel e = Some OnClose \<and> \<not> ctx_done e
        \<and> snd (Close e) = [ServerShutdown (5 * Second), CancelCtx])
   \<and> (OpenFilePath os_Open writers path = Inr ((e, evts), acts) \<longrightarrow>
        cancel e = None \<and> \<not> ctx_done e \<and> \<not> ctx_done (fst (Close e)))"
proof -
  have w: "OpenWebServer writers = Inr (e, evts) \<Longrightarrow> e = webhook_source"
    using open_webhook_source by blast
  have f: "OpenFilePath os_Open writers path = Inr ((e, evts), acts) \<Longrightarrow> e = file_source"
    using open_file_source by blast
  show ?thesis
    using w f
    by (auto simp: Close_def onClose_def webServerShutdownTimeoutSecs_def webhook_source_def
        file_source_def)
qed

theorem Close_by_variant_witness:
  "Close webhook_source
     = (webhook_source\<lparr>ctx_done := True, server := ShutDown\<rparr>,
        [ServerShutdown 5000000000, CancelCtx])
   \<and> fst (Close (fst (Close webhook_source))) = fst (Close webhook_source)
   \<and> Close file_source = (file_source, [])"
proof -
  have c: "cancel webhook_source = Some OnClose" by (simp add: webhook_source_def)
  have n: "cancel file_source = None" by (simp add: file_source_def)
  have ow: "OpenWebServer (Inr sample_batch) = Inr (webhook_source, sample_batch)"
    by (simp add: OpenWebServer_def openEventSource_def webhook_source_def)
  have "of": "OpenFilePath sample_os_Open (Inr sample_batch) ''audit.log''
     = Inr ((file_source, sample_batch),
            [SendMsg text_A, SendMsg text_list, CloseErrorChan, CloseEventChan])"
    by (simp add: OpenFilePath_def sample_os_Open_def openEventSource_def file_source_def
      file_goroutine_def text_A_def text_list_def)
  have 1: "fst (Close (fst (Close webhook_source))) = fst (Close webhook_source)"
    using Close_by_variant[of webhook_source "Inr sample_batch" sample_batch
        sample_os_Open "''audit.log''" "[]"] c ow by simp
  have 2: "Close file_source = (file_source, [])"
    using Close_by_variant[of file_source "Inr sample_batch" sample_batch
        sample_os_Open "''audit.log''"
        "[SendMsg text_A, SendMsg text_list, CloseErrorChan, CloseEventChan]"] n "of" by simp
  have 3: "Close webhook_source
     = (webhook_source\<lparr>ctx_done := True, server := ShutDown\<rparr>,
        [ServerShutdown 5000000000, CancelCtx])"
    by (simp add: Close_def onClose_def webhook_source_def webServerShutdownTimeoutSecs_def
        Second_def Millisecond_def)
  show ?thesis using 1 2 3 by simp
qed

section \<open>A read failure of the file producer\<close>

text \<open>
  Claim C1 says that a read failure of the scanner reaches the next pull as its error
  result. The file \<^verbatim>\<open>long_line.log\<close> holds one event and then a line longer than the
  scanner's buffer, so \<^verbatim>\<open>scanner.Err()\<close> is \<^verbatim>\<open>bufio.ErrTooLong\<close>. The producer sends
  the variable \<^verbatim>\<open>err\<close> of \<^verbatim>\<open>os.Open\<close>, which is nil; the parsing goroutine forwards
  it, and \<^verbatim>\<open>NextBatch\<close> returns one record with a nil error and marks the source
  exhausted. The server goroutine of the webhook, in contrast, sends the error it got.
\<close>

theorem file_read_error_is_replaced_by_nil:
  "OpenFilePath sample_os_Open (Inr sample_batch) ''long_line.log''
     = Inr ((file_source, sample_batch),
            [SendMsg text_A, SendErr None, CloseErrorChan, CloseEventChan])
   \<and> outs (merge_goroutine sample_ParseBytes sample_time_Parse
             (map merge_case_of [SendMsg text_A, SendErr None, CloseErrorChan, CloseEventChan]))
       = [SendEvent record_A, SendError None]
   \<and> count (NextBatch sample_MarshalTo sample_cfg file_source sample_batch
              (map (\<lambda>out. (0, chan_event_of out)) [SendEvent record_A, SendError None])) = 1
   \<and> status (NextBatch sample_MarshalTo sample_cfg file_source sample_batch
              (map (\<lambda>out. (0, chan_event_of out)) [SendEvent record_A, SendError None])) = None
   \<and> eof (src (NextBatch sample_MarshalTo sample_cfg file_source sample_batch
              (map (\<lambda>out. (0, chan_event_of out)) [SendEvent record_A, SendError None])))
   \<and> server_goroutine (Some (Err ''listen tcp :9765: bind: address already in use''))
       = [SendErr (Some (Err ''listen tcp :9765: bind: address already in use'')), CloseErrorChan]"
proof -
  have a: "OpenFilePath sample_os_Open (Inr sample_batch) ''long_line.log''
     = Inr ((file_source, sample_batch),
            [SendMsg text_A, SendErr None, CloseErrorChan, CloseEventChan])"
    by (simp add: OpenFilePath_def sample_os_Open_def openEventSource_def file_source_def
      file_goroutine_def text_A_def)
  have p: "sample_ParseBytes text_A = Inr event_A"
    by (simp add: sample_ParseBytes_def text_A_def)
  have b: "outs (merge_goroutine sample_ParseBytes sample_time_Parse
             (map merge_case_of [SendMsg text_A, SendErr None, CloseErrorChan, CloseEventChan]))
       = [SendEvent record_A, SendError None]"
    by (simp add: handle_message_def p parseJSONMessage_def parse_event_A)
  have c: "NextBatch sample_MarshalTo sample_cfg file_source sample_batch
              (map (\<lambda>out. (0, chan_event_of out)) [SendEvent record_A, SendError None])
     = \<lparr>count = 1, status = None, src = file_source\<lparr>eof := True\<rparr>,
        batch = [\<lparr>slot_cap = 70, slot_data = text_A, slot_ts = 1672531200000000000\<rparr>,
                 empty_slot, empty_slot],
        logged = []\<rparr>"
    by (simp add: NextBatch_def file_source_def defaultEventTimeout_def Millisecond_def
        sample_batch_def empty_slot_def sample_MarshalTo_def record_A_def sample_cfg_def
        Write_def SetTimestamp_def text_A_def)
  have d: "server_goroutine (Some (Err ''listen tcp :9765: bind: address already in use''))
       = [SendErr (Some (Err ''listen tcp :9765: bind: address already in use'')), CloseErrorChan]"
    by (simp add: server_goroutine_def ErrServerClosed_def)
  show ?thesis using a b c d by simp
qed


section \<open>NextBatch\<close>

subsection \<open>The loop\<close>






lemma Write_fits:
  "length data \<le> slot_cap s \<Longrightarrow> Write s data = (s\<lparr>slot_data := data\<rparr>, None)"
  by (simp add: Write_def)

lemma fill_record_fits:
  assumes "t < T" and "length (M (Data ev)) \<le> MaxEventSize cfg" and "i < length evts"
    and "MaxEventSize cfg \<le> slot_cap (evts ! i)"
  shows "fill M cfg T e evts i lg ((t, RecvEvent ev) # rest)
           = fill M cfg T e
               (evts[i := SetTimestamp ((evts ! i)\<lparr>slot_data := M (Data ev)\<rparr>) (Timestamp ev)])
               (i + 1) lg rest"
proof -
  have "Write (evts ! i) (M (Data ev)) = ((evts ! i)\<lparr>slot_data := M (Data ev)\<rparr>, None)"
    using assms(2,4) by (simp add: Write_fits)
  then show ?thesis using assms(1,2,3) by (simp add: Let_def)
qed


lemma fill_received:
  assumes "\<forall>(t, ev)\<in>set recs. t < T"
    and "\<forall>s\<in>set evts. MaxEventSize cfg \<le> slot_cap s"
    and "i + length (filter (\<lambda>(t, ev). length (M (Data ev)) \<le> MaxEventSize cfg) recs)
           < length evts"
  shows "\<exists>evts' lg'. length evts' = length evts
           \<and> (\<forall>s\<in>set evts'. MaxEventSize cfg \<le> slot_cap s)
           \<and> fill M cfg T e evts i lg (map (\<lambda>(t, ev). (t, RecvEvent ev)) recs @ rest)
               = fill M cfg T e evts'
                   (i + length (filter (\<lambda>(t, ev). length (M (Data ev)) \<le> MaxEventSize cfg) recs))
                   lg' rest"
  using assms
proof (induction recs arbitrary: evts i lg)
  case Nil
  then show ?case by auto
next
  case (Cons x recs)
  obtain t ev where x: "x = (t, ev)" by (cases x)
  let ?fits = "\<lambda>(t, ev). length (M (Data ev)) \<le> MaxEventSize cfg"
  let ?arr = "map (\<lambda>(t, ev). (t, RecvEvent ev)) recs @ rest"
  have i: "i < length evts" using Cons.prems(3) by simp
  have t: "t < T" using Cons.prems(1) x by auto
  have times: "\<forall>(t, ev)\<in>set recs. t < T" using Cons.prems(1) by simp
  show ?case
  proof (cases "length (M (Data ev)) \<le> MaxEventSize cfg")
    case True
    let ?s = "SetTimestamp ((evts ! i)\<lparr>slot_data := M (Data ev)\<rparr>) (Timestamp ev)"
    let ?evts = "evts[i := ?s]"
    have cap: "MaxEventSize cfg \<le> slot_cap (evts ! i)" using Cons.prems(2) i by simp
    have step: "fill M cfg T e evts i lg ((t, RecvEvent ev) # ?arr)
                  = fill M cfg T e ?evts (i + 1) lg ?arr"
      using t True i cap by (rule fill_record_fits)
    have caps: "\<forall>s\<in>set ?evts. MaxEventSize cfg \<le> slot_cap s"
    proof
      fix s assume "s \<in> set ?evts"
      then have "s = ?s \<or> s \<in> set evts" using set_update_subset_insert[of evts i ?s] by auto
      then show "MaxEventSize cfg \<le> slot_cap s"
        using cap Cons.prems(2) by (auto simp: SetTimestamp_def)
    qed
    have bound: "(i + 1) + length (filter ?fits recs) < length ?evts"
      using Cons.prems(3) x True by simp
    from Cons.IH[OF times caps bound, of lg] obtain evts' lg' where
      e': "length evts' = length ?evts" "\<forall>s\<in>set evts'. MaxEventSize cfg \<le> slot_cap s"
      "fill M cfg T e ?evts (i + 1) lg ?arr
         = fill M cfg T e evts' ((i + 1) + length (filter ?fits recs)) lg' rest"
      by blast
    have "length evts' = length evts \<and> (\<forall>s\<in>set evts'. MaxEventSize cfg \<le> slot_cap s)
        \<and> fill M cfg T e evts i lg (map (\<lambda>(t, ev). (t, RecvEvent ev)) (x # recs) @ rest)
            = fill M cfg T e evts' (i + length (filter ?fits (x # recs))) lg' rest"
      using e' step x True by (simp del: fill.simps)
    then show ?thesis by blast
  next
    case False
    let ?lg = "lg @ [DroppedEvent (length (M (Data ev)))]"
    have step: "fill M cfg T e evts i lg ((t, RecvEvent ev) # ?arr)
                  = fill M cfg T e evts i ?lg ?arr"
      using t False i by (simp add: Let_def)
    have bound: "i + length (filter ?fits recs) < length evts"
      using Cons.prems(3) x False by simp
    from Cons.IH[OF times Cons.prems(2) bound, of ?lg] obtain evts' lg' where
      e': "length evts' = length evts" "\<forall>s\<in>set evts'. MaxEventSize cfg \<le> slot_cap s"
      "fill M cfg T e evts i ?lg ?arr
         = fill M cfg T e evts' (i + length (filter ?fits recs)) lg' rest"
      by blast
    have "length evts' = length evts \<and> (\<forall>s\<in>set evts'. MaxEventSize cfg \<le> slot_cap s)
        \<and> fill M cfg T e evts i lg (map (\<lambda>(t, ev). (t, RecvEvent ev)) (x # recs) @ rest)
            = fill M cfg T e evts' (i + length (filter ?fits (x # recs))) lg' rest"
      using e' step x False by (simp del: fill.simps)
    then show ?thesis by blast
  qed
qed

lemma fill_exhausting_case:
  assumes "i < length evts" and "t < T"
    and "c = EventChanClosed \<or> c = ErrorChanClosed \<or> c = RecvError err
           \<or> (c = CtxDone \<and> ctx_done e)"
  shows "fill M cfg T e evts i lg ((t, c) # rest)
           = \<lparr>count = i,
              status = (case c of RecvError err' \<Rightarrow> err' | _ \<Rightarrow> Some ErrEOF),
              src = e\<lparr>eof := True\<rparr>, batch = evts, logged = lg\<rparr>"
  using assms by auto

lemma fill_eof_monotone: "eof e \<Longrightarrow> eof (src (fill M cfg T e evts i lg xs))"
proof (induction xs arbitrary: e evts i lg)
  case Nil
  then show ?case by simp
next
  case (Cons x xs)
  obtain t c where x: "x = (t, c)" by (cases x)
  show ?case
    unfolding x using Cons.prems
    by (cases c) (simp_all add: Let_def Cons.IH split: prod.split option.split)
qed

lemma fill_EOF_sets_eof:
  "status (fill M cfg T e evts i lg xs) = Some ErrEOF \<Longrightarrow> eof (src (fill M cfg T e evts i lg xs))"
proof (induction xs arbitrary: e evts i lg)
  case Nil
  then show ?case by (simp split: if_splits)
next
  case (Cons x xs)
  obtain t c where x: "x = (t, c)" by (cases x)
  show ?case
    using Cons.prems unfolding x
    by (cases c) (auto simp: Let_def Write_def dest: Cons.IH split: prod.splits option.splits if_splits)
qed

lemma eof_stays:
  "eof e \<Longrightarrow> NextBatch M cfg e evts a
     = \<lparr>count = 0, status = Some ErrEOF, src = e, batch = evts, logged = []\<rparr>"
  by (simp add: NextBatch_def)

lemma pulls_after_eof:
  "eof e \<Longrightarrow> \<forall>r \<in> set (pulls M cfg e evts as).
           r = \<lparr>count = 0, status = Some ErrEOF, src = e, batch = evts, logged = []\<rparr>"
proof (induction as)
  case Nil
  then show ?case by simp
next
  case (Cons a as)
  then show ?case by (simp add: eof_stays Let_def)
qed

lemma sample_sizes:
  "length (sample_MarshalTo (Data record_A)) = 66" "length (sample_MarshalTo (Data record_B)) = 74"
  by (simp_all add: sample_MarshalTo_def record_A_def record_B_def event_A_def event_B_def
      text_A_def text_B_def)

subsection \<open>Exhaustion\<close>

text \<open>
  Claim C2. Once the \<^verbatim>\<open>eof\<close> flag of a source is set, every later call of
  \<^verbatim>\<open>NextBatch\<close> returns 0 and \<^verbatim>\<open>sdk.ErrEOF\<close> whatever the channels offer, and leaves
  the source and the batch as they are: no record is delivered. The flag is set by every
  call that reports \<^verbatim>\<open>sdk.ErrEOF\<close>, and by a call whose \<^verbatim>\<open>select\<close> finds the event
  channel or the error channel closed, receives an error (nil or not), or finds the
  context cancelled, be it as the first case of the call or after any number of
  records received before the timer, written or dropped as oversized: such a call
  returns the number of records written with \<^verbatim>\<open>sdk.ErrEOF\<close> or the received error, and
  every call after it returns 0 and \<^verbatim>\<open>sdk.ErrEOF\<close>.
\<close>

theorem exhaustion_is_terminal:
  "(eof e \<longrightarrow>
      (\<forall>r \<in> set (pulls M cfg e evts as).
         r = \<lparr>count = 0, status = Some ErrEOF, src = e, batch = evts, logged = []\<rparr>))
   \<and> (status (NextBatch M cfg e evts a) = Some ErrEOF \<longrightarrow> eof (src (NextBatch M cfg e evts a)))
   \<and> (\<not> eof e \<and> 0 < length evts \<and> t < defaultEventTimeout
        \<and> (c = EventChanClosed \<or> c = ErrorChanClosed \<or> c = RecvError err
            \<or> (c = CtxDone \<and> ctx_done e)) \<longrightarrow>
        eof (src (NextBatch M cfg e evts ((t, c) # rest))))
   \<and> (\<not> eof e
        \<and> (\<forall>(t, ev)\<in>set recs. t < defaultEventTimeout)
        \<and> (\<forall>s\<in>set evts. MaxEventSize cfg \<le> slot_cap s)
        \<and> length (filter (\<lambda>(t, ev). length (M (Data ev)) \<le> MaxEventSize cfg) recs)
             < length evts
        \<and> t < defaultEventTimeout
        \<and> (c = EventChanClosed \<or> c = ErrorChanClosed \<or> c = RecvError err
            \<or> (c = CtxDone \<and> ctx_done e))
        \<and> r = NextBatch M cfg e evts (map (\<lambda>(t, ev). (t, RecvEvent ev)) recs @ (t, c) # rest)
      \<longrightarrow>
        eof (src r)
        \<and> count r = length (filter (\<lambda>(t, ev). length (M (Data ev)) \<le> MaxEventSize cfg) recs)
        \<and> status r = (case c of RecvError err' \<Rightarrow> err' | _ \<Rightarrow> Some ErrEOF)
        \<and> (\<forall>r' \<in> set (pulls M cfg (src r) (batch r) as).
              r' = \<lparr>count = 0, status = Some ErrEOF, src = src r, batch = batch r,
                    logged = []\<rparr>))"
proof -
  let ?fits = "\<lambda>(t, ev). length (M (Data ev)) \<le> MaxEventSize cfg"
  have 1: "eof e \<Longrightarrow> \<forall>r \<in> set (pulls M cfg e evts as).
         r = \<lparr>count = 0, status = Some ErrEOF, src = e, batch = evts, logged = []\<rparr>"
    by (rule pulls_after_eof)
  have 2: "status (NextBatch M cfg e evts a) = Some ErrEOF \<Longrightarrow> eof (src (NextBatch M cfg e evts a))"
    using fill_EOF_sets_eof[of M cfg defaultEventTimeout e evts 0 "[]" a]
    by (simp add: NextBatch_def del: fill.simps split: if_splits)
  have 3: "eof (src (NextBatch M cfg e evts ((t, c) # rest)))"
    if "\<not> eof e" "0 < length evts" "t < defaultEventTimeout"
      "c = EventChanClosed \<or> c = ErrorChanClosed \<or> c = RecvError err \<or> (c = CtxDone \<and> ctx_done e)"
    using that by (auto simp: NextBatch_def)
  have 4: "eof (src r) \<and> count r = length (filter ?fits recs)
        \<and> status r = (case c of RecvError err' \<Rightarrow> err' | _ \<Rightarrow> Some ErrEOF)
        \<and> (\<forall>r' \<in> set (pulls M cfg (src r) (batch r) as).
              r' = \<lparr>count = 0, status = Some ErrEOF, src = src r, batch = batch r,
                    logged = []\<rparr>)"
    if ne: "\<not> eof e" and times: "\<forall>(t, ev)\<in>set recs. t < defaultEventTimeout"
      and caps: "\<forall>s\<in>set evts. MaxEventSize cfg \<le> slot_cap s"
      and len: "length (filter ?fits recs) < length evts"
      and t: "t < defaultEventTimeout"
      and c: "c = EventChanClosed \<or> c = ErrorChanClosed \<or> c = RecvError err
                \<or> (c = CtxDone \<and> ctx_done e)"
      and r: "r = NextBatch M cfg e evts (map (\<lambda>(t, ev). (t, RecvEvent ev)) recs @ (t, c) # rest)"
  proof -
    have len0: "0 + length (filter ?fits recs) < length evts" using len by simp
    from fill_received[OF times caps len0, of e "[]" "(t, c) # rest"]
    obtain evts' lg' where e': "length evts' = length evts"
      "fill M cfg defaultEventTimeout e evts 0 []
           (map (\<lambda>(t, ev). (t, RecvEvent ev)) recs @ (t, c) # rest)
         = fill M cfg defaultEventTimeout e evts' (length (filter ?fits recs)) lg' ((t, c) # rest)"
      by auto
    have i: "length (filter ?fits recs) < length evts'" using len e'(1) by simp
    have "r = \<lparr>count = length (filter ?fits recs),
               status = (case c of RecvError err' \<Rightarrow> err' | _ \<Rightarrow> Some ErrEOF),
               src = e\<lparr>eof := True\<rparr>, batch = evts', logged = lg'\<rparr>"
      using r ne e'(2) fill_exhausting_case[OF i t c, of M cfg lg' rest]
      by (simp add: NextBatch_def del: fill.simps)
    then show ?thesis using pulls_after_eof[of "src r" M cfg "batch r" as] by simp
  qed
  show ?thesis using 1 2 3 4 by blast
qed

theorem exhaustion_is_terminal_witness:
  "NextBatch sample_MarshalTo sample_cfg file_source sample_batch
       [(0, RecvEvent record_A), (0, EventChanClosed)]
     = \<lparr>count = 1, status = Some ErrEOF, src = file_source\<lparr>eof := True\<rparr>,
        batch = [\<lparr>slot_cap = 70, slot_data = text_A, slot_ts = 1672531200000000000\<rparr>,
                 empty_slot, empty_slot],
        logged = []\<rparr>
   \<and> map (\<lambda>r. (count r, status r))
        (pulls sample_MarshalTo sample_cfg (file_source\<lparr>eof := True\<rparr>) sample_batch
           [[(0, RecvEvent record_A)], [], [(5, RecvEvent record_B)]])
       = [(0, Some ErrEOF), (0, Some ErrEOF), (0, Some ErrEOF)]
   \<and> (let r = NextBatch sample_MarshalTo sample_cfg file_source sample_batch
                [(1000000, RecvEvent record_A), (2000000, RecvEvent record_B),
                 (3000000, RecvError (Some (Err ''listen tcp: address already in use''))),
                 (4000000, RecvEvent record_A)]
      in eof (src r) \<and> count r = 1
         \<and> status r = Some (Err ''listen tcp: address already in use'')
         \<and> map (\<lambda>r'. (count r', status r'))
              (pulls sample_MarshalTo sample_cfg (src r) (batch r) [[(0, RecvEvent record_A)], []])
             = [(0, Some ErrEOF), (0, Some ErrEOF)])"
proof -
  have a: "NextBatch sample_MarshalTo sample_cfg file_source sample_batch
       [(0, RecvEvent record_A), (0, EventChanClosed)]
     = \<lparr>count = 1, status = Some ErrEOF, src = file_source\<lparr>eof := True\<rparr>,
        batch = [\<lparr>slot_cap = 70, slot_data = text_A, slot_ts = 1672531200000000000\<rparr>,
                 empty_slot, empty_slot],
        logged = []\<rparr>"
    by (simp add: NextBatch_def file_source_def defaultEventTimeout_def Millisecond_def
        sample_batch_def empty_slot_def sample_MarshalTo_def record_A_def sample_cfg_def
        Write_def SetTimestamp_def text_A_def)
  have e: "eof (file_source\<lparr>eof := True\<rparr>)" by simp
  have b: "map (\<lambda>r. (count r, status r))
        (pulls sample_MarshalTo sample_cfg (file_source\<lparr>eof := True\<rparr>) sample_batch
           [[(0, RecvEvent record_A)], [], [(5, RecvEvent record_B)]])
       = [(0, Some ErrEOF), (0, Some ErrEOF), (0, Some ErrEOF)]"
    using exhaustion_is_terminal[of "file_source\<lparr>eof := True\<rparr>" sample_MarshalTo sample_cfg
        sample_batch "[[(0, RecvEvent record_A)], [], [(5, RecvEvent record_B)]]"] e
    by (simp add: Let_def eof_stays del: fill.simps)
  have ne: "\<not> eof file_source" by (simp add: file_source_def)
  have times: "\<forall>(t, ev)\<in>set [(1000000::nat, record_A), (2000000, record_B)].
                 t < defaultEventTimeout"
    by (simp add: defaultEventTimeout_def Millisecond_def)
  have caps: "\<forall>s\<in>set sample_batch. MaxEventSize sample_cfg \<le> slot_cap s"
    by (simp add: sample_batch_def empty_slot_def sample_cfg_def)
  have fits: "filter (\<lambda>(t, ev). length (sample_MarshalTo (Data ev)) \<le> MaxEventSize sample_cfg)
                [(1000000::nat, record_A), (2000000, record_B)] = [(1000000, record_A)]"
    by (simp add: sample_sizes sample_cfg_def)
  have len: "length (filter (\<lambda>(t, ev). length (sample_MarshalTo (Data ev)) \<le> MaxEventSize sample_cfg)
                [(1000000::nat, record_A), (2000000, record_B)]) < length sample_batch"
    by (simp add: fits sample_batch_def)
  have t: "(3000000::nat) < defaultEventTimeout"
    by (simp add: defaultEventTimeout_def Millisecond_def)
  let ?fits = "\<lambda>(t, ev). length (sample_MarshalTo (Data ev)) \<le> MaxEventSize sample_cfg"
  let ?recs = "[(1000000::nat, record_A), (2000000, record_B)]"
  let ?c = "RecvError (Some (Err ''listen tcp: address already in use''))"
  let ?rest = "[(4000000::nat, RecvEvent record_A)]"
  let ?r = "NextBatch sample_MarshalTo sample_cfg file_source sample_batch
              (map (\<lambda>(t, ev). (t, RecvEvent ev)) ?recs @ (3000000, ?c) # ?rest)"
  have hyp: "\<not> eof file_source
        \<and> (\<forall>(t, ev)\<in>set ?recs. t < defaultEventTimeout)
        \<and> (\<forall>s\<in>set sample_batch. MaxEventSize sample_cfg \<le> slot_cap s)
        \<and> length (filter ?fits ?recs) < length sample_batch
        \<and> 3000000 < defaultEventTimeout
        \<and> (?c = EventChanClosed \<or> ?c = ErrorChanClosed
            \<or> ?c = RecvError (Some (Err ''listen tcp: address already in use''))
            \<or> (?c = CtxDone \<and> ctx_done file_source))
        \<and> ?r = NextBatch sample_MarshalTo sample_cfg file_source sample_batch
                  (map (\<lambda>(t, ev). (t, RecvEvent ev)) ?recs @ (3000000, ?c) # ?rest)"
    using ne times caps len t by (simp del: fill.simps)
  note inst = exhaustion_is_terminal[where e = file_source and M = sample_MarshalTo
        and cfg = sample_cfg and evts = sample_batch and recs = ?recs and t = 3000000
        and c = ?c and err = "Some (Err ''listen tcp: address already in use'')"
        and rest = ?rest and as = "[[(0, RecvEvent record_A)], []]" and r = ?r,
        THEN conjunct2, THEN conjunct2, THEN conjunct2, THEN mp, OF hyp]
  have c: "let r = NextBatch sample_MarshalTo sample_cfg file_source sample_batch
                [(1000000, RecvEvent record_A), (2000000, RecvEvent record_B),
                 (3000000, RecvError (Some (Err ''listen tcp: address already in use''))),
                 (4000000, RecvEvent record_A)]
      in eof (src r) \<and> count r = 1
         \<and> status r = Some (Err ''listen tcp: address already in use'')
         \<and> map (\<lambda>r'. (count r', status r'))
              (pulls sample_MarshalTo sample_cfg (src r) (batch r) [[(0, RecvEvent record_A)], []])
             = [(0, Some ErrEOF), (0, Some ErrEOF)]"
    using inst fits by (simp add: Let_def eof_stays del: fill.simps filter.simps)
  show ?thesis using a b c by simp
qed

subsection \<open>The wait budget\<close>



subsection \<open>Oversized records\<close>



end
